theory Spec2Isabelle
  imports Complex_Main
begin

section \<open>Values, errors and arrays\<close>

text \<open>
  The module \<^verbatim>\<open>atomvision/data/stem.py\<close> computes with Python and NumPy floats. They are
  read here as real numbers: the rounding of a sum, a product or a quotient is not
  modelled, and the float32 casts of the source are the identity. The one place
  where IEEE arithmetic differs in kind from the reals, division by zero, is modelled
  with the values NumPy returns there. A decimal literal of the source is written
  as the decimal; the float it denotes differs from it in the seventeenth digit,
  which matters to one statement below only, on a distance equal to the cutoff, and
  that statement names the float (\<open>float_0_1\<close>).
  Exceptions are values of the type \<open>error\<close>, named as Python names them.
\<close>

datatype error =
    KeyError int
  | NotImplementedError string
  | ZeroDivisionError
  | ValueError
  | IndexError
  | TypeError

datatype npfloat = Finite real | PosInf | NegInf | NaN

type_synonym 'a array2 = "'a list list"

type_synonym vec3 = "real \<times> real \<times> real"

definition vsub :: "vec3 \<Rightarrow> vec3 \<Rightarrow> vec3" where
  "vsub v u = (fst v - fst u, fst (snd v) - fst (snd u), snd (snd v) - snd (snd u))"

definition vscale :: "vec3 \<Rightarrow> real \<Rightarrow> vec3" where
  "vscale v k = (fst v * k, fst (snd v) * k, snd (snd v) * k)"

definition array_shape :: "'a array2 \<Rightarrow> nat \<times> nat" where
  "array_shape a = (length a, case a of [] \<Rightarrow> 0 | row # _ \<Rightarrow> length row)"

definition has_shape :: "nat \<times> nat \<Rightarrow> 'a array2 \<Rightarrow> bool" where
  "has_shape shape a \<longleftrightarrow> length a = fst shape \<and> (\<forall>row \<in> set a. length row = snd shape)"

definition pixel_at :: "'a array2 \<Rightarrow> nat \<times> nat \<Rightarrow> 'a" where
  "pixel_at a p = a ! fst p ! snd p"

definition raster :: "nat \<times> nat \<Rightarrow> (nat \<times> nat) list" where
  "raster shape = [(r, c). r \<leftarrow> [0..<fst shape], c \<leftarrow> [0..<snd shape]]"

definition np_zeros :: "nat \<times> nat \<Rightarrow> int array2" where
  "np_zeros shape = replicate (fst shape) (replicate (snd shape) 0)"

text \<open>\<^verbatim>\<open>a.max()\<close>: the largest element; NumPy raises ValueError on an array of size zero.\<close>

definition array_max :: "real array2 \<Rightarrow> error + real" where
  "array_max a = (case concat a of [] \<Rightarrow> Inl ValueError | x # xs \<Rightarrow> Inr (fold max xs x))"

text \<open>
  \<^verbatim>\<open>x / m\<close> on float arrays: NumPy raises nothing on a zero divisor (it warns), the
  quotient is nan for \<open>0 / 0\<close> and a signed infinity otherwise.
\<close>

definition true_divide :: "real \<Rightarrow> real \<Rightarrow> npfloat" where
  "true_divide x m =
     (if m \<noteq> 0 then Finite (x / m)
      else if x = 0 then NaN
      else if 0 < x then PosInf else NegInf)"

fun np_add :: "npfloat \<Rightarrow> npfloat \<Rightarrow> npfloat" where
  "np_add (Finite a) (Finite b) = Finite (a + b)"
| "np_add NaN _ = NaN"
| "np_add _ NaN = NaN"
| "np_add PosInf NegInf = NaN"
| "np_add NegInf PosInf = NaN"
| "np_add PosInf _ = PosInf"
| "np_add _ PosInf = PosInf"
| "np_add NegInf _ = NegInf"
| "np_add _ NegInf = NegInf"

fun np_minimum :: "npfloat \<Rightarrow> npfloat \<Rightarrow> npfloat" where
  "np_minimum (Finite a) (Finite b) = Finite (min a b)"
| "np_minimum NaN _ = NaN"
| "np_minimum _ NaN = NaN"
| "np_minimum NegInf _ = NegInf"
| "np_minimum _ NegInf = NegInf"
| "np_minimum PosInf b = b"
| "np_minimum a PosInf = a"

fun np_maximum :: "npfloat \<Rightarrow> npfloat \<Rightarrow> npfloat" where
  "np_maximum (Finite a) (Finite b) = Finite (max a b)"
| "np_maximum NaN _ = NaN"
| "np_maximum _ NaN = NaN"
| "np_maximum PosInf _ = PosInf"
| "np_maximum _ PosInf = PosInf"
| "np_maximum NegInf b = b"
| "np_maximum a NegInf = a"

fun np_div_count :: "npfloat \<Rightarrow> nat \<Rightarrow> npfloat" where
  "np_div_count (Finite s) k = true_divide s (real k)"
| "np_div_count v k = (if k = 0 then NaN else v)"

definition np_min :: "npfloat list \<Rightarrow> npfloat" where
  "np_min xs = fold np_minimum xs PosInf"

definition np_max :: "npfloat list \<Rightarrow> npfloat" where
  "np_max xs = fold np_maximum xs NegInf"

definition np_mean :: "npfloat list \<Rightarrow> npfloat" where
  "np_mean xs = np_div_count (fold np_add xs (Finite 0)) (length xs)"

section \<open>Radius masks\<close>

text \<open>
  \<^verbatim>\<open>skimage.draw.disk(center, radius, shape=shape)\<close>: the pixels of the image whose
  distance to the centre, divided by the radius and squared, is below one. The sign
  of the radius plays no part (the library takes the bounding box from its absolute
  value), and the radius zero selects no pixel.
\<close>

definition disk :: "real \<times> real \<Rightarrow> real \<Rightarrow> nat \<times> nat \<Rightarrow> (nat \<times> nat) list" where
  "disk center radius shape =
     (if radius = 0 then []
      else [(r, c). r \<leftarrow> [0..<fst shape], c \<leftarrow> [0..<snd shape],
              ((real r - fst center) / radius)\<^sup>2 + ((real c - snd center) / radius)\<^sup>2 < 1])"

text \<open>\<^verbatim>\<open>labels[rr, cc] = n\<close>: every listed pixel receives \<open>n\<close>, the others keep their value.\<close>

definition set_pixels :: "int array2 \<Rightarrow> (nat \<times> nat) list \<Rightarrow> int \<Rightarrow> int array2" where
  "set_pixels labels idx n =
     map (\<lambda>(r, row). map (\<lambda>(c, v). if (r, c) \<in> set idx then n else v) (enumerate 0 row))
       (enumerate 0 labels)"

text \<open>
  The loop of \<^verbatim>\<open>atomic_radius_mask\<close> over \<^verbatim>\<open>zip(X, N)\<close>. The lookup \<^verbatim>\<open>RADII[n]\<close> raises
  KeyError for an atomic number the table lacks; it is evaluated before the division by
  \<^verbatim>\<open>px_scale\<close>, which raises ZeroDivisionError on Python floats.
\<close>

fun paint_atoms ::
  "(int \<rightharpoonup> real) \<Rightarrow> real \<Rightarrow> nat \<times> nat \<Rightarrow> ((real \<times> real) \<times> int) list \<Rightarrow> int array2
     \<Rightarrow> error + int array2"
where
  "paint_atoms RADII px_scale shape [] labels = Inr labels"
| "paint_atoms RADII px_scale shape ((x, n) # rest) labels =
     (case RADII n of
        None \<Rightarrow> Inl (KeyError n)
      | Some rad \<Rightarrow>
          if px_scale = 0 then Inl ZeroDivisionError
          else paint_atoms RADII px_scale shape rest
                 (set_pixels labels (disk x (0.5 * rad / px_scale) shape) n))"

definition atomic_radius_mask ::
  "(int \<rightharpoonup> real) \<Rightarrow> nat \<times> nat \<Rightarrow> (real \<times> real) list \<Rightarrow> int list \<Rightarrow> real
     \<Rightarrow> error + int array2"
where
  "atomic_radius_mask RADII shape X N px_scale =
     paint_atoms RADII px_scale shape (zip X N) (np_zeros shape)"

text \<open>
  The footprint of an atom as the specification draws it: the pixels whose distance
  to the centre is below the radius. \<open>covering\<close> lists the atomic numbers, in input
  order, of the atoms whose footprint of radius \<open>0.5 * radius(Z) / px_scale\<close> holds the
  pixel \<open>p\<close>.
\<close>

definition in_footprint :: "real \<times> real \<Rightarrow> real \<Rightarrow> nat \<times> nat \<Rightarrow> bool" where
  "in_footprint center radius p \<longleftrightarrow>
     (real (fst p) - fst center)\<^sup>2 + (real (snd p) - snd center)\<^sup>2 < radius\<^sup>2"

definition covering ::
  "(int \<rightharpoonup> real) \<Rightarrow> real \<Rightarrow> ((real \<times> real) \<times> int) list \<Rightarrow> nat \<times> nat \<Rightarrow> int list"
where
  "covering RADII px_scale atoms p =
     map snd (filter (\<lambda>(x, n). in_footprint x (0.5 * the (RADII n) / px_scale) p) atoms)"

section \<open>The dataset and its split\<close>

definition LABEL_MODES :: "string set" where
  "LABEL_MODES = {''delta'', ''radius''}"

text \<open>\<^verbatim>\<open>int(x)\<close> on a float truncates towards zero.\<close>

definition py_int :: "real \<Rightarrow> int" where
  "py_int x = (if 0 \<le> x then \<lfloor>x\<rfloor> else \<lceil>x\<rceil>)"

text \<open>
  \<^verbatim>\<open>xs[a:b]\<close>: a negative bound counts from the end, and both bounds are clamped to
  the length of the sequence.
\<close>

definition slice_bound :: "nat \<Rightarrow> int \<Rightarrow> nat" where
  "slice_bound len i = (if i < 0 then nat (int len + i) else min (nat i) len)"

definition py_slice :: "'a list \<Rightarrow> int \<Rightarrow> int \<Rightarrow> 'a list" where
  "py_slice xs a b =
     take (slice_bound (length xs) b - slice_bound (length xs) a)
       (drop (slice_bound (length xs) a) xs)"


text \<open>
  What the module takes from outside: the radius table built from \<^verbatim>\<open>chem_data\<close>, the
  JARVIS loader \<^verbatim>\<open>data\<close>, the image simulator \<^verbatim>\<open>STEMConv\<close> and the generator of
  \<^verbatim>\<open>torch\<close>. A simulator maps a structure, the pixel scale, \<^verbatim>\<open>eps\<close>, the rotation and
  the shift to the image, the label mask, the atoms' pixel positions and their numbers.
  The generator of \<^verbatim>\<open>torch\<close> is a state \<open>'g\<close>: \<^verbatim>\<open>manual_seed\<close> sets it, \<^verbatim>\<open>randperm\<close> reads
  and advances it.
\<close>

record 'a df_row =
  row_atoms :: 'a
  row_jid :: string
  row_crys :: string

type_synonym sim_out = "real array2 \<times> int array2 \<times> (real \<times> real) list \<times> int list"

type_synonym 'a simulator = "'a \<Rightarrow> real \<Rightarrow> real \<Rightarrow> real \<Rightarrow> real \<times> real \<Rightarrow> sim_out"

record ('a, 'g) externals =
  RADII_table :: "int \<rightharpoonup> real"
  jarvis_data :: "string \<Rightarrow> 'a df_row list"
  STEMConv :: "nat \<times> nat \<Rightarrow> 'a simulator"
  torch_manual_seed :: "int \<Rightarrow> 'g"
  torch_randperm :: "'g \<Rightarrow> nat \<Rightarrow> nat list \<times> 'g"

record 'a dataset =
  self_px_scale :: real
  self_label_mode :: string
  self_to_tensor :: "(real array2 \<Rightarrow> real array2) option"
  self_rotation_degrees :: "real option"
  self_shift_angstrom :: "real option"
  self_zoom_pct :: "real option"
  self_df :: "'a df_row list"
  self_stem :: "'a simulator"
  self_train_ids :: "nat list"
  self_val_ids :: "nat list"
  self_test_ids :: "nat list"

text \<open>
  \<^verbatim>\<open>split_dataset\<close>. The generator state on entry is overwritten by \<^verbatim>\<open>torch.manual_seed(0)\<close>;
  \<^verbatim>\<open>torch.random.seed()\<close> then reseeds it from a number the program does not choose,
  here the argument \<open>entropy\<close>.
\<close>

definition split_dataset ::
  "('a, 'g) externals \<Rightarrow> 'a df_row list \<Rightarrow> real \<Rightarrow> real \<Rightarrow> 'g \<Rightarrow> int
     \<Rightarrow> (nat list \<times> nat list \<times> nat list) \<times> 'g"
where
  "split_dataset ext df val_frac test_frac gen entropy =
     (let N = length df;
          n_val = py_int (real N * val_frac);
          n_test = py_int (real N * test_frac);
          n_train = int N - (n_val + n_test);
          seeded = torch_manual_seed ext 0;
          (shuf, advanced) = torch_randperm ext seeded N;
          reseeded = torch_manual_seed ext entropy;
          train_ids = py_slice shuf 0 n_train;
          val_ids = py_slice shuf n_train (n_train + n_val);
          test_ids = py_slice shuf (n_train + n_val) (n_train + n_val + n_test)
      in ((train_ids, val_ids, test_ids), reseeded))"

definition Jarvis2dSTEMDataset_init ::
  "('a, 'g) externals \<Rightarrow> real \<Rightarrow> string \<Rightarrow> 'a df_row list option \<Rightarrow> real option \<Rightarrow> real option
     \<Rightarrow> real option \<Rightarrow> (real array2 \<Rightarrow> real array2) option \<Rightarrow> 'g \<Rightarrow> int
     \<Rightarrow> error + ('a dataset \<times> 'g)"
where
  "Jarvis2dSTEMDataset_init ext px_scale label_mode image_data rotation_degrees shift_angstrom
       zoom_pct to_tensor gen entropy =
     (if label_mode \<notin> LABEL_MODES
      then Inl (NotImplementedError (''label mode '' @ label_mode @ '' not supported''))
      else
        let df = (case image_data of Some d \<Rightarrow> d | None \<Rightarrow> jarvis_data ext ''dft_2d'');
            stem = STEMConv ext (256, 256);
            ((train_ids, val_ids, test_ids), gen') = split_dataset ext df 0.1 0.1 gen entropy
        in Inr (\<lparr>self_px_scale = px_scale, self_label_mode = label_mode,
                  self_to_tensor = to_tensor, self_rotation_degrees = rotation_degrees,
                  self_shift_angstrom = shift_angstrom, self_zoom_pct = zoom_pct,
                  self_df = df, self_stem = stem, self_train_ids = train_ids,
                  self_val_ids = val_ids, self_test_ids = test_ids\<rparr>, gen'))"

text \<open>
  \<^verbatim>\<open>np.random.uniform\<close> reads NumPy's global generator, a stream of draws from the unit
  interval that each call consumes from.
\<close>

type_synonym np_random = "nat \<Rightarrow> real"

definition uniform :: "real \<Rightarrow> real \<Rightarrow> np_random \<Rightarrow> real \<times> np_random" where
  "uniform low high rs = (low + (high - low) * rs 0, \<lambda>k. rs (Suc k))"

text \<open>\<^verbatim>\<open>df.iloc[idx]\<close>: positions below zero count from the end, IndexError outside.\<close>

definition iloc :: "'a list \<Rightarrow> int \<Rightarrow> error + 'a" where
  "iloc rows idx =
     (if - int (length rows) \<le> idx \<and> idx < 0 then Inr (rows ! nat (int (length rows) + idx))
      else if 0 \<le> idx \<and> idx < int (length rows) then Inr (rows ! nat idx)
      else Inl IndexError)"

record sample =
  sample_image :: "real array2"
  sample_label :: "int array2"
  sample_id :: string
  sample_px_scale :: real
  sample_crys :: string

definition Jarvis2dSTEMDataset_getitem ::
  "('a, 'g) externals \<Rightarrow> ('a, 'z) dataset_scheme \<Rightarrow> int \<Rightarrow> np_random
     \<Rightarrow> error + (sample \<times> np_random)"
where
  "Jarvis2dSTEMDataset_getitem ext self idx rs0 =
     (case iloc (self_df self) idx of
        Inl e \<Rightarrow> Inl e
      | Inr row \<Rightarrow>
          let a = row_atoms row;
              (rot, rs1) = (case self_rotation_degrees self of
                              None \<Rightarrow> (0, rs0)
                            | Some d \<Rightarrow> uniform (- d) d rs0);
              (shift_x, rs2) = (case self_shift_angstrom self of
                              None \<Rightarrow> (0, rs1)
                            | Some s \<Rightarrow> uniform (- s) s rs1);
              (shift_y, rs3) = (case self_shift_angstrom self of
                              None \<Rightarrow> (0, rs2)
                            | Some s \<Rightarrow> uniform (- s) s rs2);
              (px_scale, rs4) = (case self_zoom_pct self of
                              None \<Rightarrow> (self_px_scale self, rs3)
                            | Some z \<Rightarrow>
                                let frac = z / 100; (u, rs) = uniform (- frac) frac rs3
                                in (self_px_scale self * (1 + u), rs));
              (img, label, pos, nb) = self_stem self a px_scale 0.6 rot (shift_x, shift_y)
          in case (if self_label_mode self = ''radius''
                   then atomic_radius_mask (RADII_table ext) (array_shape img) pos nb px_scale
                   else Inr label) of
               Inl e \<Rightarrow> Inl e
             | Inr label' \<Rightarrow>
                 let img' = (case self_to_tensor self of None \<Rightarrow> img | Some f \<Rightarrow> f img)
                 in Inr (\<lparr>sample_image = img',
                           sample_label = map (map (\<lambda>v. if 0 < v then 1 else 0)) label',
                           sample_id = row_jid row, sample_px_scale = px_scale,
                           sample_crys = row_crys row\<rparr>, rs4))"


section \<open>From a mask to a graph\<close>

text \<open>
  \<^verbatim>\<open>skimage.measure.label\<close>: two pixels belong to one component when a chain of
  neighbouring pixels of the same value joins them; a pixel has the eight pixels
  around it as neighbours (the default connectivity of a 2-D image). Pixels of
  value zero are background and keep the label zero, the components are numbered
  from one in raster order of their first pixel.
\<close>

definition adjacent :: "nat \<times> nat \<Rightarrow> nat \<times> nat \<Rightarrow> bool" where
  "adjacent p q \<longleftrightarrow>
     p \<noteq> q \<and> fst p \<le> Suc (fst q) \<and> fst q \<le> Suc (fst p) \<and>
     snd p \<le> Suc (snd q) \<and> snd q \<le> Suc (snd p)"

definition grow :: "int array2 \<Rightarrow> (nat \<times> nat) list \<Rightarrow> (nat \<times> nat) list" where
  "grow a reg =
     reg @ filter (\<lambda>q. q \<notin> set reg \<and>
                        (\<exists>p \<in> set reg. adjacent p q \<and> pixel_at a p = pixel_at a q))
              (raster (array_shape a))"

definition component :: "int array2 \<Rightarrow> nat \<times> nat \<Rightarrow> (nat \<times> nat) list" where
  "component a seed = (grow a ^^ (fst (array_shape a) * snd (array_shape a))) [seed]"

definition components :: "int array2 \<Rightarrow> (nat \<times> nat) list list" where
  "components a =
     fold (\<lambda>p comps. if pixel_at a p = 0 \<or> (\<exists>C \<in> set comps. p \<in> set C) then comps
                      else comps @ [component a p])
       (raster (array_shape a)) []"

definition measure_label :: "int array2 \<Rightarrow> nat array2" where
  "measure_label a =
     map (\<lambda>(r, row). map (\<lambda>(c, v). if v = 0 then 0
                                     else Suc (length (takeWhile (\<lambda>C. (r, c) \<notin> set C) (components a))))
                        (enumerate 0 row))
       (enumerate 0 a)"

text \<open>
  \<^verbatim>\<open>skimage.measure.regionprops_table\<close> with the six properties the module asks for,
  one row per label other than zero, in ascending order of the label. It raises
  ValueError when the intensity image has another shape than the label image.
\<close>

record props_row =
  region_label :: nat
  centroid_0 :: real
  centroid_1 :: real
  equivalent_diameter :: real
  min_intensity :: npfloat
  mean_intensity :: npfloat
  max_intensity :: npfloat

definition region_row :: "nat array2 \<Rightarrow> npfloat array2 \<Rightarrow> nat \<Rightarrow> props_row" where
  "region_row rlab intensity_image l =
     (let px = filter (\<lambda>p. pixel_at rlab p = l) (raster (array_shape rlab));
          area = real (length px);
          vals = map (pixel_at intensity_image) px
      in \<lparr>region_label = l,
          centroid_0 = sum_list (map (\<lambda>p. real (fst p)) px) / area,
          centroid_1 = sum_list (map (\<lambda>p. real (snd p)) px) / area,
          equivalent_diameter = sqrt (4 * area / pi),
          min_intensity = np_min vals,
          mean_intensity = np_mean vals,
          max_intensity = np_max vals\<rparr>)"

definition regionprops_table :: "nat array2 \<Rightarrow> npfloat array2 \<Rightarrow> error + props_row list" where
  "regionprops_table rlab intensity_image =
     (if array_shape intensity_image \<noteq> array_shape rlab then Inl ValueError
      else Inr (map (region_row rlab intensity_image)
                  (sort (remdups (filter (\<lambda>l. l \<noteq> 0) (concat rlab))))))"

text \<open>
  \<^verbatim>\<open>scipy.spatial.KDTree(points).query_pairs(r)\<close>: the pairs \<open>(i, j)\<close> with \<open>i < j\<close> of
  points at distance at most \<open>r\<close>. The tree compares squared distances with the square
  of \<open>r\<close>. The result is a set; it is listed here in lexicographic order.
\<close>

definition dist2 :: "real \<times> real \<Rightarrow> real \<times> real \<Rightarrow> real" where
  "dist2 p q = (fst p - fst q)\<^sup>2 + (snd p - snd q)\<^sup>2"

definition query_pairs :: "(real \<times> real) list \<Rightarrow> real \<Rightarrow> (nat \<times> nat) list" where
  "query_pairs points r =
     [(i, j). i \<leftarrow> [0..<length points], j \<leftarrow> [Suc i..<length points],
        dist2 (points ! i) (points ! j) \<le> r\<^sup>2]"

text \<open>A \<^verbatim>\<open>networkx.Graph\<close>: its attribute, its nodes with theirs, its undirected edges.\<close>

record node_attrs =
  node_pos :: vec3
  node_intensity :: npfloat
  node_r :: real

record nx_graph =
  graph_px_angstrom :: real
  nx_nodes :: "(nat \<times> node_attrs) list"
  nx_edges :: "(nat \<times> nat) list"

definition atom_mask_to_graph ::
  "int array2 \<Rightarrow> real array2 \<Rightarrow> real \<Rightarrow> real \<Rightarrow> error + (nx_graph \<times> props_row list)"
where
  "atom_mask_to_graph lab img px_angstrom cutoff_angstrom =
     (let rlab = measure_label lab in
      case array_max img of
        Inl e \<Rightarrow> Inl e
      | Inr image_max \<Rightarrow>
          (case regionprops_table rlab (map (map (\<lambda>x. true_divide x image_max)) img) of
             Inl e \<Rightarrow> Inl e
           | Inr props \<Rightarrow>
               let nodes = map (\<lambda>(id, row).
                                  (id, \<lparr>node_pos = vscale (centroid_1 row, centroid_0 row, 0) px_angstrom,
                                        node_intensity = mean_intensity row,
                                        node_r = 0.5 * equivalent_diameter row * px_angstrom\<rparr>))
                             (enumerate 0 props);
                   points = map (\<lambda>row. (centroid_1 row * px_angstrom, centroid_0 row * px_angstrom))
                              props
               in Inr (\<lparr>graph_px_angstrom = px_angstrom, nx_nodes = nodes,
                         nx_edges = query_pairs points cutoff_angstrom\<rparr>, props)))"

section \<open>Bond vectors and the graph dataset\<close>

text \<open>
  A DGL graph: node data, the directed edges and edge data. \<^verbatim>\<open>dgl.from_networkx\<close>
  with node attributes raises IndexError on a graph without nodes. It gives every
  undirected edge both directions; the order in which it lists the edges is not used
  below. A feature that is not set yet is the empty list.
\<close>

record dgl_graph =
  ndata_pos :: "vec3 list"
  ndata_intensity :: "npfloat list"
  ndata_r :: "real list"
  dgl_edges :: "(nat \<times> nat) list"
  edata_r :: "vec3 list"
  ndata_atom_features :: "(npfloat \<times> real) list"

definition from_networkx :: "nx_graph \<Rightarrow> error + dgl_graph" where
  "from_networkx g =
     (if nx_nodes g = [] then Inl IndexError
      else Inr
        \<lparr>ndata_pos = map (\<lambda>(id, a). node_pos a) (nx_nodes g),
         ndata_intensity = map (\<lambda>(id, a). node_intensity a) (nx_nodes g),
         ndata_r = map (\<lambda>(id, a). node_r a) (nx_nodes g),
         dgl_edges = [(u, v). u \<leftarrow> map fst (nx_nodes g), v \<leftarrow> map fst (nx_nodes g),
                        (u, v) \<in> set (nx_edges g) \<or> (v, u) \<in> set (nx_edges g)],
         edata_r = [],
         ndata_atom_features = []\<rparr>)"

record edge_batch =
  src_pos :: "vec3 list"
  dst_pos :: "vec3 list"

definition bond_vectors :: "edge_batch \<Rightarrow> vec3 list" where
  "bond_vectors edges =
     (let u = src_pos edges; v = dst_pos edges
      in map (\<lambda>(vk, uk). vsub vk uk) (zip v u))"

definition apply_edges :: "(edge_batch \<Rightarrow> vec3 list) \<Rightarrow> dgl_graph \<Rightarrow> dgl_graph" where
  "apply_edges f g =
     g\<lparr>edata_r := f \<lparr>src_pos = map (\<lambda>(u, v). ndata_pos g ! u) (dgl_edges g),
                      dst_pos = map (\<lambda>(u, v). ndata_pos g ! v) (dgl_edges g)\<rparr>\<rparr>"

record 'a graph_dataset = "'a dataset" +
  self_pixel_classifier :: "(real array2 \<Rightarrow> int array2) option"
  self_debug :: bool

definition Jarvis2dSTEMGraphDataset_init ::
  "('a, 'g) externals \<Rightarrow> real \<Rightarrow> string \<Rightarrow> 'a df_row list option
     \<Rightarrow> (real array2 \<Rightarrow> real array2) option \<Rightarrow> (real array2 \<Rightarrow> int array2) option \<Rightarrow> bool
     \<Rightarrow> 'g \<Rightarrow> int \<Rightarrow> error + ('a graph_dataset \<times> 'g)"
where
  "Jarvis2dSTEMGraphDataset_init ext px_scale label_mode image_data to_tensor pixel_classifier
       debug gen entropy =
     (case Jarvis2dSTEMDataset_init ext px_scale label_mode image_data None None None None
             gen entropy of
        Inl e \<Rightarrow> Inl e
      | Inr (base, gen') \<Rightarrow>
          Inr (dataset.extend base (graph_dataset.fields pixel_classifier debug), gen'))"

record graph_sample = sample +
  sample_g :: dgl_graph

definition Jarvis2dSTEMGraphDataset_getitem ::
  "('a, 'g) externals \<Rightarrow> ('a, 'z) graph_dataset_scheme \<Rightarrow> int \<Rightarrow> np_random
     \<Rightarrow> error + (graph_sample \<times> np_random)"
where
  "Jarvis2dSTEMGraphDataset_getitem ext self idx rs =
     (case Jarvis2dSTEMDataset_getitem ext self idx rs of
        Inl e \<Rightarrow> Inl e
      | Inr (smp, rs') \<Rightarrow>
          (case (if self_debug self then Inr (sample_label smp)
                 else (case self_pixel_classifier self of
                         None \<Rightarrow> Inl TypeError
                       | Some classify \<Rightarrow> Inr (classify (sample_image smp)))) of
             Inl e \<Rightarrow> Inl e
           | Inr predicted_label \<Rightarrow>
               (case atom_mask_to_graph predicted_label (sample_image smp) 0.1 4 of
                  Inl e \<Rightarrow> Inl e
                | Inr (g, props) \<Rightarrow>
                    (case from_networkx g of
                       Inl e \<Rightarrow> Inl e
                     | Inr g1 \<Rightarrow>
                         let g2 = apply_edges bond_vectors g1;
                             g3 = g2\<lparr>edata_r := map (\<lambda>v. vscale v (self_px_scale self))
                                                    (edata_r g2)\<rparr>;
                             g4 = g3\<lparr>ndata_atom_features :=
                                       zip (ndata_intensity g3) (ndata_r g3)\<rparr>
                         in Inr (sample.extend smp (graph_sample.fields g4), rs')))))"

section \<open>A small instance of the surroundings\<close>

text \<open>
  The examples below run the module on one structure and a simulator that renders a
  1 by 3 image with an atom at each end. The rendered intensities move with the
  rotation and the shift, so that an augmented sample would differ from a plain one.
\<close>

definition demo_stem :: "unit simulator" where
  "demo_stem a px_scale eps rot shift =
     ([[2 + rot, 1 + fst shift, 2 + snd shift]], [[1, 0, 1]], [(0, 0), (0, 2)], [1, 1])"

definition demo_ext :: "(unit, int) externals" where
  "demo_ext =
     \<lparr>RADII_table = [1 \<mapsto> 0.4],
      jarvis_data = (\<lambda>name. [\<lparr>row_atoms = (), row_jid = ''JVASP-1'', row_crys = ''cubic''\<rparr>]),
      STEMConv = (\<lambda>output_size. demo_stem),
      torch_manual_seed = (\<lambda>seed. seed),
      torch_randperm = (\<lambda>gen n. (rev [0..<n], gen + 1))\<rparr>"

definition demo_dataset :: "unit graph_dataset" where
  "demo_dataset =
     \<lparr>self_px_scale = 0.1, self_label_mode = ''delta'', self_to_tensor = None,
      self_rotation_degrees = None, self_shift_angstrom = None, self_zoom_pct = None,
      self_df = [\<lparr>row_atoms = (), row_jid = ''JVASP-1'', row_crys = ''cubic''\<rparr>],
      self_stem = demo_stem, self_train_ids = [0], self_val_ids = [], self_test_ids = [],
      self_pixel_classifier = None, self_debug = True\<rparr>"

text \<open>
  The number that the literal \<^verbatim>\<open>0.1\<close> of the source denotes: the binary64 number next
  to one tenth, which lies above it by less than \<open>10\<^sup>-\<^sup>1\<^sup>7\<close>.
\<close>

definition float_0_1 :: real where
  "float_0_1 = 3602879701896397 / 36028797018963968"

section \<open>Properties of the radius mask\<close>

text \<open>The pixels of the library's disk are the pixels of the image in the footprint.\<close>

lemma disk_mem:
  "(r, c) \<in> set (disk x rad shape) \<longleftrightarrow>
     r < fst shape \<and> c < snd shape \<and> in_footprint x rad (r, c)"
proof (cases "rad = 0")
  case True
  have "\<not> (real r - fst x)\<^sup>2 + (real c - snd x)\<^sup>2 < 0"
    by (simp add: not_less)
  with True show ?thesis by (simp add: disk_def in_footprint_def)
next
  case False
  then have "0 < rad\<^sup>2" by simp
  then have "((real r - fst x) / rad)\<^sup>2 + ((real c - snd x) / rad)\<^sup>2 < 1 \<longleftrightarrow>
     (real r - fst x)\<^sup>2 + (real c - snd x)\<^sup>2 < rad\<^sup>2"
    by (simp add: power_divide add_divide_distrib[symmetric] divide_less_eq)
  with False show ?thesis by (auto simp: disk_def in_footprint_def)
qed

lemma has_shape_np_zeros: "has_shape shape (np_zeros shape)"
  by (simp add: has_shape_def np_zeros_def)

lemma np_zeros_nth: "r < fst shape \<Longrightarrow> c < snd shape \<Longrightarrow> np_zeros shape ! r ! c = 0"
  by (simp add: np_zeros_def)

lemma has_shape_set_pixels: "has_shape shape a \<Longrightarrow> has_shape shape (set_pixels a idx n)"
  by (auto simp: has_shape_def set_pixels_def enumerate_eq_zip in_set_zip)

lemma set_pixels_nth:
  assumes "has_shape shape a" "r < fst shape" "c < snd shape"
  shows "set_pixels a idx n ! r ! c = (if (r, c) \<in> set idx then n else a ! r ! c)"
proof -
  from assms have r: "r < length a" and c: "c < length (a ! r)"
    by (auto simp: has_shape_def)
  show ?thesis using r c
    by (simp add: set_pixels_def nth_enumerate_eq)
qed

text \<open>
  The loop invariant of the painting: when every atom has a radius, the loop ends
  without an error, the shape is kept, and a pixel holds the number of the last atom
  of the list whose footprint covers it, or its old value when none does.
\<close>

lemma paint_atoms_pixel:
  assumes "\<forall>n \<in> snd ` set atoms. RADII n \<noteq> None" "px_scale \<noteq> 0"
    and "has_shape shape labels" "r < fst shape" "c < snd shape"
  shows "\<exists>m. paint_atoms RADII px_scale shape atoms labels = Inr m \<and> has_shape shape m \<and>
           m ! r ! c = (case rev (covering RADII px_scale atoms (r, c)) of
                          [] \<Rightarrow> labels ! r ! c | n # _ \<Rightarrow> n)"
  using assms
proof (induction atoms arbitrary: labels)
  case Nil
  then show ?case by (simp add: covering_def)
next
  case (Cons a atoms)
  obtain x n where a: "a = (x, n)" by (cases a)
  from Cons.prems a obtain rad where rad: "RADII n = Some rad" by auto
  let ?d = "disk x (0.5 * rad / px_scale) shape"
  let ?l = "set_pixels labels ?d n"
  have sh: "has_shape shape ?l" using Cons.prems(3) by (rule has_shape_set_pixels)
  from Cons.IH[OF _ Cons.prems(2) sh Cons.prems(4,5)] Cons.prems(1)
  obtain m where m: "paint_atoms RADII px_scale shape atoms ?l = Inr m" "has_shape shape m"
    "m ! r ! c = (case rev (covering RADII px_scale atoms (r, c)) of
                          [] \<Rightarrow> ?l ! r ! c | n # _ \<Rightarrow> n)" by auto
  have "?l ! r ! c = (if (r, c) \<in> set ?d then n else labels ! r ! c)"
    using Cons.prems(3,4,5) by (rule set_pixels_nth)
  then have px: "?l ! r ! c =
      (if in_footprint x (0.5 * rad / px_scale) (r, c) then n else labels ! r ! c)"
    using Cons.prems(4,5) by (simp add: disk_mem)
  have "paint_atoms RADII px_scale shape (a # atoms) labels = Inr m"
    using a rad Cons.prems(2) m(1) by simp
  moreover have "m ! r ! c = (case rev (covering RADII px_scale (a # atoms) (r, c)) of
                          [] \<Rightarrow> labels ! r ! c | n # _ \<Rightarrow> n)"
    using m(3) px a rad
    by (cases "rev (covering RADII px_scale atoms (r, c))") (auto simp: covering_def)
  ultimately show ?case using m(2) by blast
qed

text \<open>The same for every pixel of the image at once.\<close>

lemma paint_atoms_mask:
  assumes "\<forall>n \<in> snd ` set atoms. RADII n \<noteq> None" "px_scale \<noteq> 0" "has_shape shape labels"
  shows "\<exists>m. paint_atoms RADII px_scale shape atoms labels = Inr m \<and> has_shape shape m \<and>
           (\<forall>r < fst shape. \<forall>c < snd shape.
              m ! r ! c = (case rev (covering RADII px_scale atoms (r, c)) of
                             [] \<Rightarrow> labels ! r ! c | n # _ \<Rightarrow> n))"
proof -
  from assms have "\<exists>m. paint_atoms RADII px_scale shape atoms labels = Inr m \<and> has_shape shape m"
  proof (induction atoms arbitrary: labels)
    case Nil
    then show ?case by simp
  next
    case (Cons a atoms)
    obtain x n where a: "a = (x, n)" by (cases a)
    from Cons.prems a obtain rad where rad: "RADII n = Some rad" by auto
    have "has_shape shape (set_pixels labels (disk x (0.5 * rad / px_scale) shape) n)"
      using Cons.prems(3) by (rule has_shape_set_pixels)
    from Cons.IH[OF _ Cons.prems(2) this] Cons.prems(1,2) a rad show ?case by simp
  qed
  then obtain m where m: "paint_atoms RADII px_scale shape atoms labels = Inr m" "has_shape shape m"
    by blast
  have "m ! r ! c = (case rev (covering RADII px_scale atoms (r, c)) of
                       [] \<Rightarrow> labels ! r ! c | n # _ \<Rightarrow> n)"
    if "r < fst shape" "c < snd shape" for r c
    using paint_atoms_pixel[OF assms that] m(1) by simp
  with m show ?thesis by blast
qed

lemma paint_atoms_KeyError:
  assumes "\<exists>n \<in> snd ` set atoms. RADII n = None" "px_scale \<noteq> 0"
  shows "\<exists>n \<in> snd ` set atoms. RADII n = None \<and>
           paint_atoms RADII px_scale shape atoms labels = Inl (KeyError n)"
  using assms
proof (induction atoms arbitrary: labels)
  case Nil
  then show ?case by simp
next
  case (Cons a atoms)
  obtain x n where a: "a = (x, n)" by (cases a)
  show ?case
  proof (cases "RADII n")
    case None
    then show ?thesis using a by auto
  next
    case (Some rad)
    with Cons.prems a have "\<exists>n \<in> snd ` set atoms. RADII n = None" by auto
    from Cons.IH[OF this Cons.prems(2)] show ?thesis using a Some Cons.prems(2) by auto
  qed
qed

lemma snd_set_zip: "length X = length N \<Longrightarrow> snd ` set (zip X N) = set N"
  by (metis map_snd_zip set_map)

text \<open>
  Claim C6. \<^verbatim>\<open>atomic_radius_mask\<close> is order-sensitive, the last write wins. With a
  radius for every atom and a pixel scale other than zero, the call returns a mask in
  which a pixel of the image holds the atomic number of the last atom, in input order,
  whose footprint covers it, and zero when none does. For two atoms whose footprints
  both cover a pixel, the pixel holds the number of the atom listed second, so that
  listing the two atoms in the other order changes it to the other atom's number.
\<close>

theorem atomic_radius_mask_last_write_wins:
  assumes "px_scale \<noteq> 0" "r < fst shape" "c < snd shape"
  shows "((\<forall>n \<in> snd ` set (zip X N). RADII n \<noteq> None) \<longrightarrow>
            (\<exists>m. atomic_radius_mask RADII shape X N px_scale = Inr m \<and>
                 m ! r ! c = (case rev (covering RADII px_scale (zip X N) (r, c)) of
                                [] \<Rightarrow> 0 | n # _ \<Rightarrow> n))) \<and>
         (RADII na = Some ra \<and> RADII nb = Some rb \<and>
          (real r - fst xa)\<^sup>2 + (real c - snd xa)\<^sup>2 < (0.5 * ra / px_scale)\<^sup>2 \<and>
          (real r - fst xb)\<^sup>2 + (real c - snd xb)\<^sup>2 < (0.5 * rb / px_scale)\<^sup>2 \<longrightarrow>
            (\<exists>m1 m2. atomic_radius_mask RADII shape [xa, xb] [na, nb] px_scale = Inr m1 \<and>
                     atomic_radius_mask RADII shape [xb, xa] [nb, na] px_scale = Inr m2 \<and>
                     m1 ! r ! c = nb \<and> m2 ! r ! c = na))"
proof (intro conjI impI)
  assume all: "\<forall>n \<in> snd ` set (zip X N). RADII n \<noteq> None"
  from paint_atoms_pixel[OF all assms(1) has_shape_np_zeros assms(2,3)]
  show "\<exists>m. atomic_radius_mask RADII shape X N px_scale = Inr m \<and>
            m ! r ! c = (case rev (covering RADII px_scale (zip X N) (r, c)) of
                           [] \<Rightarrow> 0 | n # _ \<Rightarrow> n)"
    by (auto simp: atomic_radius_mask_def np_zeros_nth[OF assms(2,3)] split: list.splits)
next
  assume h: "RADII na = Some ra \<and> RADII nb = Some rb \<and>
          (real r - fst xa)\<^sup>2 + (real c - snd xa)\<^sup>2 < (0.5 * ra / px_scale)\<^sup>2 \<and>
          (real r - fst xb)\<^sup>2 + (real c - snd xb)\<^sup>2 < (0.5 * rb / px_scale)\<^sup>2"
  have ab: "\<forall>n \<in> snd ` set [(xa, na), (xb, nb)]. RADII n \<noteq> None" using h by simp
  have ba: "\<forall>n \<in> snd ` set [(xb, nb), (xa, na)]. RADII n \<noteq> None" using h by simp
  have fa: "in_footprint xa (0.5 * ra / px_scale) (r, c)"
    and fb: "in_footprint xb (0.5 * rb / px_scale) (r, c)"
    using h by (simp_all add: in_footprint_def)
  from paint_atoms_pixel[OF ab assms(1) has_shape_np_zeros assms(2,3)]
  obtain m1 where m1: "atomic_radius_mask RADII shape [xa, xb] [na, nb] px_scale = Inr m1"
    "m1 ! r ! c = nb"
    using h fa fb by (auto simp: atomic_radius_mask_def covering_def)
  from paint_atoms_pixel[OF ba assms(1) has_shape_np_zeros assms(2,3)]
  obtain m2 where m2: "atomic_radius_mask RADII shape [xb, xa] [nb, na] px_scale = Inr m2"
    "m2 ! r ! c = na"
    using h fa fb by (auto simp: atomic_radius_mask_def covering_def)
  from m1 m2
  show "\<exists>m1 m2. atomic_radius_mask RADII shape [xa, xb] [na, nb] px_scale = Inr m1 \<and>
                 atomic_radius_mask RADII shape [xb, xa] [nb, na] px_scale = Inr m2 \<and>
                 m1 ! r ! c = nb \<and> m2 ! r ! c = na"
    by blast
qed

text \<open>
  Two atoms of radius 1 at the pixels (1, 1) and (1, 2) of a 3 by 4 image, at 0.25
  per pixel, so two pixels of radius each: both footprints cover the pixel (1, 1),
  which holds 2 when atom 2 is listed last and 1 when atom 1 is. And a table that
  holds the placeholder -9999 for astatine, at 0.1 per pixel: the footprint of radius
  49995 pixels covers the 2 by 2 image, every pixel of which holds 85.
\<close>

theorem atomic_radius_mask_last_write_wins_witness:
  "(\<exists>m1 m2. atomic_radius_mask [1 \<mapsto> 1, 2 \<mapsto> 1] (3, 4) [(1, 1), (1, 2)] [1, 2] 0.25 = Inr m1 \<and>
            atomic_radius_mask [1 \<mapsto> 1, 2 \<mapsto> 1] (3, 4) [(1, 2), (1, 1)] [2, 1] 0.25 = Inr m2 \<and>
            m1 ! 1 ! 1 = 2 \<and> m2 ! 1 ! 1 = 1) \<and>
   (\<exists>m. atomic_radius_mask [85 \<mapsto> - 9999] (2, 2) [(0, 0)] [85] 0.1 = Inr m \<and> m ! 1 ! 1 = 85) \<and>
   atomic_radius_mask [85 \<mapsto> - 9999] (2, 2) [(0, 0)] [85] 0.1 = Inr [[85, 85], [85, 85]]"
proof -
  have flood: "atomic_radius_mask [85 \<mapsto> - 9999] (2, 2) [(0, 0)] [85] 0.1 = Inr [[85, 85], [85, 85]]"
    by (simp add: atomic_radius_mask_def np_zeros_def set_pixels_def disk_def enumerate_eq_zip
        upt_conv_Cons power2_eq_square eval_nat_numeral)
  from atomic_radius_mask_last_write_wins
    [of "0.25" 1 "(3, 4)" 1 "[]" "[]" "[1 \<mapsto> 1, 2 \<mapsto> 1]" 1 1 2 1 "(1, 1)" "(1, 2)"]
    atomic_radius_mask_last_write_wins
    [of "0.1" 1 "(2, 2)" 1 "[(0, 0)]" "[85]" "[85 \<mapsto> - 9999]" 85 0 85 0 "(0, 0)" "(0, 0)"]
    flood
  show ?thesis
    by (simp add: covering_def in_footprint_def power2_eq_square)
qed

text \<open>
  Claim C7. When the lists of positions and of atomic numbers have the same length and
  the pixel scale is not zero: if the radius table lacks one of the atomic numbers,
  the call fails with the KeyError of the lookup for a number the table lacks (the
  error the specification calls UnknownSpeciesError), and no atom is skipped; if the
  table has them all, the call succeeds, its mask has the shape of the image, and a
  pixel \<open>(r, c)\<close> of the image holds the number of the last atom \<open>(x, Z)\<close> with
  \<open>(r - x\<^sub>0)\<^sup>2 + (c - x\<^sub>1)\<^sup>2 < (0.5 * radius(Z) / px_scale)\<^sup>2\<close>, and zero when there is
  none: every disk has the radius \<open>0.5 * radius(Z) / px_scale\<close> pixels (its absolute value
  where the table holds a negative number), and what of it lies outside the image is
  dropped.
\<close>

theorem atomic_radius_mask_unknown_species:
  assumes "length X = length N" "px_scale \<noteq> 0"
  shows "((\<exists>n \<in> set N. RADII n = None) \<longrightarrow>
            (\<exists>n \<in> set N. RADII n = None \<and>
               atomic_radius_mask RADII shape X N px_scale = Inl (KeyError n))) \<and>
         ((\<forall>n \<in> set N. RADII n \<noteq> None) \<longrightarrow>
            (\<exists>m. atomic_radius_mask RADII shape X N px_scale = Inr m \<and>
                 length m = fst shape \<and> (\<forall>row \<in> set m. length row = snd shape) \<and>
                 (\<forall>r < fst shape. \<forall>c < snd shape.
                    m ! r ! c =
                      (case rev (filter (\<lambda>(x, n). (real r - fst x)\<^sup>2 + (real c - snd x)\<^sup>2
                                                     < (0.5 * the (RADII n) / px_scale)\<^sup>2)
                                   (zip X N)) of
                         [] \<Rightarrow> 0 | (x, n) # _ \<Rightarrow> n))))"
proof (intro conjI impI)
  assume "\<exists>n \<in> set N. RADII n = None"
  then show "\<exists>n \<in> set N. RADII n = None \<and>
               atomic_radius_mask RADII shape X N px_scale = Inl (KeyError n)"
    using paint_atoms_KeyError[of "zip X N" RADII px_scale shape "np_zeros shape"] assms
    by (simp add: atomic_radius_mask_def snd_set_zip)
next
  assume "\<forall>n \<in> set N. RADII n \<noteq> None"
  then have all: "\<forall>n \<in> snd ` set (zip X N). RADII n \<noteq> None"
    using assms(1) by (simp add: snd_set_zip)
  from paint_atoms_mask[OF all assms(2) has_shape_np_zeros]
  obtain m where m: "atomic_radius_mask RADII shape X N px_scale = Inr m" "has_shape shape m"
    "\<forall>r < fst shape. \<forall>c < snd shape.
        m ! r ! c = (case rev (covering RADII px_scale (zip X N) (r, c)) of
                       [] \<Rightarrow> np_zeros shape ! r ! c | n # _ \<Rightarrow> n)"
    unfolding atomic_radius_mask_def by blast
  have "m ! r ! c =
          (case rev (filter (\<lambda>(x, n). (real r - fst x)\<^sup>2 + (real c - snd x)\<^sup>2
                                         < (0.5 * the (RADII n) / px_scale)\<^sup>2)
                       (zip X N)) of
             [] \<Rightarrow> 0 | (x, n) # _ \<Rightarrow> n)"
    if rc: "r < fst shape" "c < snd shape" for r c
  proof -
    let ?f = "filter (\<lambda>(x, n). (real r - fst x)\<^sup>2 + (real c - snd x)\<^sup>2
                                  < (0.5 * the (RADII n) / px_scale)\<^sup>2) (zip X N)"
    have cov: "covering RADII px_scale (zip X N) (r, c) = map snd ?f"
      by (simp add: covering_def in_footprint_def case_prod_beta)
    from m(3) rc have "m ! r ! c = (case rev (map snd ?f) of [] \<Rightarrow> 0 | n # _ \<Rightarrow> n)"
      by (simp add: cov np_zeros_nth split: list.splits)
    then show ?thesis
      by (cases "rev ?f") (auto simp: rev_map split: list.splits)
  qed
  with m(1,2) show "\<exists>m. atomic_radius_mask RADII shape X N px_scale = Inr m \<and>
                 length m = fst shape \<and> (\<forall>row \<in> set m. length row = snd shape) \<and>
                 (\<forall>r < fst shape. \<forall>c < snd shape.
                    m ! r ! c =
                      (case rev (filter (\<lambda>(x, n). (real r - fst x)\<^sup>2 + (real c - snd x)\<^sup>2
                                                     < (0.5 * the (RADII n) / px_scale)\<^sup>2)
                                   (zip X N)) of
                         [] \<Rightarrow> 0 | (x, n) # _ \<Rightarrow> n))"
    unfolding has_shape_def by blast
qed

text \<open>
  A table with hydrogen only, of radius 1, at 0.25 per pixel, so a disk of radius two
  pixels. With an atom 2 in the list the call fails on it. With one hydrogen atom at
  the corner (0, 0) of a 3 by 4 image the mask holds 1 at the four pixels nearer to
  the corner than two pixels and 0 elsewhere: the pixels (0, 2) and (2, 0) on the rim
  are outside, and the part of the disk beyond the corner is dropped.
\<close>

theorem atomic_radius_mask_unknown_species_witness:
  "atomic_radius_mask [1 \<mapsto> 1] (3, 4) [(0, 0), (1, 2)] [1, 2] 0.25 = Inl (KeyError 2) \<and>
   atomic_radius_mask [1 \<mapsto> 1] (3, 4) [(0, 0)] [1] 0.25 =
     Inr [[1, 1, 0, 0], [1, 1, 0, 0], [0, 0, 0, 0]]"
proof -
  from atomic_radius_mask_unknown_species
    [of "[(0, 0), (1, 2)]" "[1, 2]" "0.25" "[1 \<mapsto> 1]" "(3, 4)"]
  have a: "atomic_radius_mask [1 \<mapsto> 1] (3, 4) [(0, 0), (1, 2)] [1, 2] 0.25 = Inl (KeyError 2)"
    by simp
  from atomic_radius_mask_unknown_species[of "[(0, 0)]" "[1]" "0.25" "[1 \<mapsto> 1]" "(3, 4)"]
  obtain m where m: "atomic_radius_mask [1 \<mapsto> 1] (3, 4) [(0, 0)] [1] 0.25 = Inr m"
    "m ! 1 ! 1 = 1" "m ! 0 ! 2 = 0"
    by (auto simp: power2_eq_square)
  have "atomic_radius_mask [1 \<mapsto> 1] (3, 4) [(0, 0)] [1] 0.25 =
     Inr [[1, 1, 0, 0], [1, 1, 0, 0], [0, 0, 0, 0]]"
    by (simp add: atomic_radius_mask_def np_zeros_def set_pixels_def disk_def enumerate_eq_zip
        upt_conv_Cons power2_eq_square eval_nat_numeral)
  with a m show ?thesis by simp
qed

section \<open>Properties of the datasets\<close>

lemma init_ok:
  assumes "label_mode \<in> LABEL_MODES"
  shows "\<exists>d. Jarvis2dSTEMDataset_init ext px_scale label_mode image_data rotation_degrees
              shift_angstrom zoom_pct to_tensor gen entropy = Inr (d, torch_manual_seed ext entropy) \<and>
           self_px_scale d = px_scale \<and> self_label_mode d = label_mode \<and>
           self_to_tensor d = to_tensor \<and> self_rotation_degrees d = rotation_degrees \<and>
           self_shift_angstrom d = shift_angstrom \<and> self_zoom_pct d = zoom_pct \<and>
           self_stem d = STEMConv ext (256, 256) \<and>
           self_df d = (case image_data of Some d \<Rightarrow> d | None \<Rightarrow> jarvis_data ext ''dft_2d'')"
  using assms
  by (simp add: Jarvis2dSTEMDataset_init_def split_dataset_def Let_def split: prod.splits)

text \<open>
  Claim C9. For a label mode that is neither ``delta'' nor ``radius'' the constructor
  of the dataset, and with it the constructor of the graph dataset, returns the
  NotImplementedError of its first statement (the error the specification calls
  UnsupportedLabelModeError): no dataset object exists that a sample could be read
  from. For the two label modes the constructors return a dataset.
\<close>

theorem init_rejects_unknown_label_mode:
  "(label_mode \<notin> {''delta'', ''radius''} \<longrightarrow>
      Jarvis2dSTEMDataset_init ext px_scale label_mode image_data rotation_degrees
        shift_angstrom zoom_pct to_tensor gen entropy =
      Inl (NotImplementedError (''label mode '' @ label_mode @ '' not supported'')) \<and>
      Jarvis2dSTEMGraphDataset_init ext px_scale label_mode image_data to_tensor
        pixel_classifier debug gen entropy =
      Inl (NotImplementedError (''label mode '' @ label_mode @ '' not supported''))) \<and>
   (label_mode \<in> {''delta'', ''radius''} \<longrightarrow>
      (\<exists>d g. Jarvis2dSTEMDataset_init ext px_scale label_mode image_data rotation_degrees
                shift_angstrom zoom_pct to_tensor gen entropy = Inr (d, g)) \<and>
      (\<exists>d g. Jarvis2dSTEMGraphDataset_init ext px_scale label_mode image_data to_tensor
                pixel_classifier debug gen entropy = Inr (d, g)))"
proof (intro conjI impI)
  assume "label_mode \<notin> {''delta'', ''radius''}"
  then show "Jarvis2dSTEMDataset_init ext px_scale label_mode image_data rotation_degrees
        shift_angstrom zoom_pct to_tensor gen entropy =
      Inl (NotImplementedError (''label mode '' @ label_mode @ '' not supported''))"
    and "Jarvis2dSTEMGraphDataset_init ext px_scale label_mode image_data to_tensor
        pixel_classifier debug gen entropy =
      Inl (NotImplementedError (''label mode '' @ label_mode @ '' not supported''))"
    by (simp_all add: Jarvis2dSTEMGraphDataset_init_def Jarvis2dSTEMDataset_init_def LABEL_MODES_def)
next
  assume "label_mode \<in> {''delta'', ''radius''}"
  then have m: "label_mode \<in> LABEL_MODES" by (simp add: LABEL_MODES_def)
  from init_ok[OF m, of ext px_scale image_data rotation_degrees shift_angstrom zoom_pct
      to_tensor gen entropy]
  show "\<exists>d g. Jarvis2dSTEMDataset_init ext px_scale label_mode image_data rotation_degrees
                shift_angstrom zoom_pct to_tensor gen entropy = Inr (d, g)"
    by blast
  from init_ok[OF m, of ext px_scale image_data None None None None gen entropy]
  show "\<exists>d g. Jarvis2dSTEMGraphDataset_init ext px_scale label_mode image_data to_tensor
                pixel_classifier debug gen entropy = Inr (d, g)"
    by (auto simp: Jarvis2dSTEMGraphDataset_init_def)
qed

text \<open>The mode ``gaussian'' is refused with the message of the source, ``radius'' is accepted.\<close>

theorem init_rejects_unknown_label_mode_witness:
  "Jarvis2dSTEMDataset_init demo_ext 0.1 ''gaussian'' None None None None None 7 11 =
     Inl (NotImplementedError ''label mode gaussian not supported'') \<and>
   (\<exists>d g. Jarvis2dSTEMDataset_init demo_ext 0.1 ''radius'' None None None None None 7 11 = Inr (d, g))"
  using init_rejects_unknown_label_mode[of "''gaussian''" demo_ext "0.1" None None None None None 7 11]
    init_rejects_unknown_label_mode[of "''radius''" demo_ext "0.1" None None None None None 7 11]
  by simp

lemma graph_init_fields:
  assumes "Jarvis2dSTEMGraphDataset_init ext px_scale label_mode image_data to_tensor
             pixel_classifier debug gen entropy = Inr (self, gen')"
  shows "self_px_scale self = px_scale \<and> self_label_mode self = label_mode \<and>
         self_to_tensor self = None \<and> self_rotation_degrees self = None \<and>
         self_shift_angstrom self = None \<and> self_zoom_pct self = None \<and>
         self_pixel_classifier self = pixel_classifier \<and> self_debug self = debug"
  using assms
  by (auto simp: Jarvis2dSTEMGraphDataset_init_def Jarvis2dSTEMDataset_init_def Let_def
        dataset.defs graph_dataset.defs split: if_splits prod.splits)

lemma graph_init_ignores_to_tensor:
  "Jarvis2dSTEMGraphDataset_init ext px_scale label_mode image_data to_tensor
     pixel_classifier debug gen entropy =
   Jarvis2dSTEMGraphDataset_init ext px_scale label_mode image_data None
     pixel_classifier debug gen entropy"
  by (simp add: Jarvis2dSTEMGraphDataset_init_def)

lemma getitem_plain:
  assumes "self_to_tensor self = None" "self_rotation_degrees self = None"
    "self_shift_angstrom self = None" "self_zoom_pct self = None"
  shows "Jarvis2dSTEMDataset_getitem ext self idx rs =
     (case iloc (self_df self) idx of
        Inl e \<Rightarrow> Inl e
      | Inr row \<Rightarrow>
          (case self_stem self (row_atoms row) (self_px_scale self) 0.6 0 (0, 0) of
             (img, label, pos, nb) \<Rightarrow>
               (case (if self_label_mode self = ''radius''
                      then atomic_radius_mask (RADII_table ext) (array_shape img) pos nb
                             (self_px_scale self)
                      else Inr label) of
                  Inl e \<Rightarrow> Inl e
                | Inr label' \<Rightarrow>
                    Inr (\<lparr>sample_image = img,
                          sample_label = map (map (\<lambda>v. if 0 < v then 1 else 0)) label',
                          sample_id = row_jid row, sample_px_scale = self_px_scale self,
                          sample_crys = row_crys row\<rparr>, rs))))"
  using assms
  by (simp add: Jarvis2dSTEMDataset_getitem_def Let_def split: sum.splits prod.splits)

subsection \<open>The instance, evaluated\<close>

lemma demo_measure_label: "measure_label [[1, 0, 1]] = [[1, 0, 2]]"
  by code_simp

lemma demo_init:
  "Jarvis2dSTEMGraphDataset_init demo_ext 0.1 ''delta'' None tt None True gen entropy =
     Inr (demo_dataset, entropy)"
  by (simp add: Jarvis2dSTEMGraphDataset_init_def Jarvis2dSTEMDataset_init_def LABEL_MODES_def
      split_dataset_def demo_ext_def py_int_def py_slice_def slice_bound_def Let_def
      dataset.defs graph_dataset.defs demo_dataset_def)

lemma demo_base_getitem:
  "Jarvis2dSTEMDataset_getitem demo_ext demo_dataset 0 rs =
     Inr (\<lparr>sample_image = [[2, 1, 2]], sample_label = [[1, 0, 1]], sample_id = ''JVASP-1'',
           sample_px_scale = 0.1, sample_crys = ''cubic''\<rparr>, rs)"
  by (simp add: Jarvis2dSTEMDataset_getitem_def demo_dataset_def iloc_def demo_stem_def)


lemma demo_graph:
  "atom_mask_to_graph [[1, 0, 1]] [[2, 1, 2]] 0.1 4 =
     Inr (\<lparr>graph_px_angstrom = 0.1,
            nx_nodes =
              [(0, \<lparr>node_pos = (0, 0, 0), node_intensity = Finite 1,
                     node_r = 0.5 * sqrt (4 / pi) * 0.1\<rparr>),
               (1, \<lparr>node_pos = (0.2, 0, 0), node_intensity = Finite 1,
                     node_r = 0.5 * sqrt (4 / pi) * 0.1\<rparr>)],
            nx_edges = [(0, 1)]\<rparr>,
          [\<lparr>region_label = 1, centroid_0 = 0, centroid_1 = 0,
             equivalent_diameter = sqrt (4 / pi), min_intensity = Finite 1,
             mean_intensity = Finite 1, max_intensity = Finite 1\<rparr>,
           \<lparr>region_label = 2, centroid_0 = 0, centroid_1 = 2,
             equivalent_diameter = sqrt (4 / pi), min_intensity = Finite 1,
             mean_intensity = Finite 1, max_intensity = Finite 1\<rparr>])"
  by (simp add: atom_mask_to_graph_def demo_measure_label array_max_def regionprops_table_def
      region_row_def raster_def array_shape_def pixel_at_def query_pairs_def dist2_def
      np_min_def np_max_def np_mean_def true_divide_def vscale_def upt_conv_Cons
      enumerate_eq_zip power2_eq_square)

lemma demo_dataset_sel:
  "self_debug demo_dataset = True" "self_px_scale demo_dataset = 0.1"
  by (simp_all add: demo_dataset_def)

lemma demo_graph_getitem:
  "Jarvis2dSTEMGraphDataset_getitem demo_ext demo_dataset 0 rs =
     Inr (\<lparr>sample_image = [[2, 1, 2]], sample_label = [[1, 0, 1]], sample_id = ''JVASP-1'',
           sample_px_scale = 0.1, sample_crys = ''cubic'',
           sample_g =
             \<lparr>ndata_pos = [(0, 0, 0), (0.2, 0, 0)],
              ndata_intensity = [Finite 1, Finite 1],
              ndata_r = [0.5 * sqrt (4 / pi) * 0.1, 0.5 * sqrt (4 / pi) * 0.1],
              dgl_edges = [(0, 1), (1, 0)],
              edata_r = [(0.02, 0, 0), (- 0.02, 0, 0)],
              ndata_atom_features =
                [(Finite 1, 0.5 * sqrt (4 / pi) * 0.1), (Finite 1, 0.5 * sqrt (4 / pi) * 0.1)]\<rparr>\<rparr>,
          rs)"
  by (simp add: Jarvis2dSTEMGraphDataset_getitem_def demo_base_getitem demo_graph
      from_networkx_def apply_edges_def bond_vectors_def vsub_def vscale_def
      sample.defs graph_sample.defs demo_dataset_sel)

subsection \<open>Samples of the graph dataset\<close>

lemma graph_getitem_sample:
  assumes "Jarvis2dSTEMGraphDataset_getitem ext self idx rs = Inr (gs, rs')"
  shows "\<exists>smp. Jarvis2dSTEMDataset_getitem ext self idx rs = Inr (smp, rs') \<and>
           sample_image gs = sample_image smp \<and> sample_px_scale gs = sample_px_scale smp"
  using assms
  by (auto simp: Jarvis2dSTEMGraphDataset_getitem_def Let_def sample.defs graph_sample.defs
        split: sum.splits prod.splits if_splits option.splits)

lemma graph_getitem_rs:
  assumes "map_sum id fst (Jarvis2dSTEMDataset_getitem ext self idx rs) =
           map_sum id fst (Jarvis2dSTEMDataset_getitem ext self idx rs2)"
  shows "map_sum id fst (Jarvis2dSTEMGraphDataset_getitem ext self idx rs) =
         map_sum id fst (Jarvis2dSTEMGraphDataset_getitem ext self idx rs2)"
  using assms
  by (auto simp: Jarvis2dSTEMGraphDataset_getitem_def Let_def
        split: sum.splits prod.splits if_splits option.splits)

text \<open>
  Claim C10. The constructor of the graph dataset takes \<^verbatim>\<open>to_tensor\<close> and passes neither it
  nor a rotation, a shift or a zoom to the constructor of the base class. So the
  dataset it returns is the one it returns without \<^verbatim>\<open>to_tensor\<close>, its four settings are
  None, and every sample it yields is rendered at rotation 0, shift (0, 0) and the
  pixel scale of the constructor, holds the simulator's image as it is, leaves the
  random generator untouched, and is the same whatever the state of the generator,
  that is, however many samples were read before.
\<close>

theorem graph_dataset_samples_unaugmented:
  assumes "Jarvis2dSTEMGraphDataset_init ext px_scale label_mode image_data to_tensor
             pixel_classifier debug gen entropy = Inr (self, gen')"
  shows "Jarvis2dSTEMGraphDataset_init ext px_scale label_mode image_data None
           pixel_classifier debug gen entropy = Inr (self, gen') \<and>
         self_to_tensor self = None \<and> self_rotation_degrees self = None \<and>
         self_shift_angstrom self = None \<and> self_zoom_pct self = None \<and>
         (\<forall>gs rs'. Jarvis2dSTEMGraphDataset_getitem ext self idx rs = Inr (gs, rs') \<longrightarrow>
            rs' = rs \<and> sample_px_scale gs = px_scale \<and>
            (\<exists>row. iloc (self_df self) idx = Inr row \<and>
               sample_image gs = fst (self_stem self (row_atoms row) px_scale 0.6 0 (0, 0)))) \<and>
         map_sum id fst (Jarvis2dSTEMGraphDataset_getitem ext self idx rs) =
         map_sum id fst (Jarvis2dSTEMGraphDataset_getitem ext self idx rs2)"
proof -
  note f = graph_init_fields[OF assms]
  have plain: "\<And>rs. Jarvis2dSTEMDataset_getitem ext self idx rs =
     (case iloc (self_df self) idx of
        Inl e \<Rightarrow> Inl e
      | Inr row \<Rightarrow>
          (case self_stem self (row_atoms row) (self_px_scale self) 0.6 0 (0, 0) of
             (img, label, pos, nb) \<Rightarrow>
               (case (if self_label_mode self = ''radius''
                      then atomic_radius_mask (RADII_table ext) (array_shape img) pos nb
                             (self_px_scale self)
                      else Inr label) of
                  Inl e \<Rightarrow> Inl e
                | Inr label' \<Rightarrow>
                    Inr (\<lparr>sample_image = img,
                          sample_label = map (map (\<lambda>v. if 0 < v then 1 else 0)) label',
                          sample_id = row_jid row, sample_px_scale = self_px_scale self,
                          sample_crys = row_crys row\<rparr>, rs))))"
    using f by (intro getitem_plain) simp_all
  have a: "Jarvis2dSTEMGraphDataset_init ext px_scale label_mode image_data None
           pixel_classifier debug gen entropy = Inr (self, gen')"
    using assms graph_init_ignores_to_tensor[of ext px_scale label_mode image_data to_tensor
        pixel_classifier debug gen entropy] by simp
  have b: "rs' = rs \<and> sample_px_scale gs = px_scale \<and>
            (\<exists>row. iloc (self_df self) idx = Inr row \<and>
               sample_image gs = fst (self_stem self (row_atoms row) px_scale 0.6 0 (0, 0)))"
    if g: "Jarvis2dSTEMGraphDataset_getitem ext self idx rs = Inr (gs, rs')" for gs rs'
  proof -
    from graph_getitem_sample[OF g] obtain smp where
      smp: "Jarvis2dSTEMDataset_getitem ext self idx rs = Inr (smp, rs')"
        "sample_image gs = sample_image smp" "sample_px_scale gs = sample_px_scale smp"
      by blast
    from smp(1) have "rs' = rs \<and> sample_px_scale smp = px_scale \<and>
            (\<exists>row. iloc (self_df self) idx = Inr row \<and>
               sample_image smp = fst (self_stem self (row_atoms row) px_scale 0.6 0 (0, 0)))"
      unfolding plain[of rs] using f
      by (auto split: sum.splits prod.splits if_splits)
    with smp(2,3) show ?thesis by simp
  qed
  have "map_sum id fst (Jarvis2dSTEMDataset_getitem ext self idx rs) =
        map_sum id fst (Jarvis2dSTEMDataset_getitem ext self idx rs2)"
    unfolding plain[of rs] plain[of rs2]
    by (auto split: sum.splits prod.splits if_splits)
  then have c: "map_sum id fst (Jarvis2dSTEMGraphDataset_getitem ext self idx rs) =
         map_sum id fst (Jarvis2dSTEMGraphDataset_getitem ext self idx rs2)"
    by (rule graph_getitem_rs)
  from a f b c show ?thesis by blast
qed

text \<open>
  The instance, built with a \<^verbatim>\<open>to_tensor\<close> that doubles the image: the sample at index 0
  holds the image of the simulator, not its double, at the pixel scale 0.1.
\<close>

theorem graph_dataset_samples_unaugmented_witness:
  "\<exists>gs. Jarvis2dSTEMGraphDataset_init demo_ext 0.1 ''delta'' None (Some (map (map (\<lambda>x. 2 * x))))
          None True 7 11 = Inr (demo_dataset, 11) \<and>
        Jarvis2dSTEMGraphDataset_getitem demo_ext demo_dataset 0 (\<lambda>k. 1 / 2) = Inr (gs, \<lambda>k. 1 / 2) \<and>
        sample_px_scale gs = 0.1 \<and> sample_image gs = [[2, 1, 2]]"
proof -
  obtain gs where
    g: "Jarvis2dSTEMGraphDataset_getitem demo_ext demo_dataset 0 (\<lambda>k. 1 / 2) = Inr (gs, \<lambda>k. 1 / 2)"
    using demo_graph_getitem[of "\<lambda>k. 1 / 2"] by blast
  from graph_dataset_samples_unaugmented
      [OF demo_init[of "Some (map (map (\<lambda>x. 2 * x)))" 7 11], of 0 "\<lambda>k. 1 / 2" "\<lambda>k. 0"] g
  have "sample_px_scale gs = 0.1 \<and>
        (\<exists>row. iloc (self_df demo_dataset) 0 = Inr row \<and>
           sample_image gs = fst (self_stem demo_dataset (row_atoms row) 0.1 0.6 0 (0, 0)))"
    by blast
  then have "sample_px_scale gs = 0.1 \<and> sample_image gs = [[2, 1, 2]]"
    by (auto simp: iloc_def demo_dataset_def demo_stem_def)
  with g demo_init[of "Some (map (map (\<lambda>x. 2 * x)))" 7 11] show ?thesis by blast
qed

subsection \<open>The split\<close>

lemma py_int_tenth: "py_int (real N * 0.1) = int (N div 10)"
proof -
  have "real N * 0.1 = real N / real 10" by simp
  then have "\<lfloor>real N * 0.1\<rfloor> = int (N div 10)"
    by (simp only: floor_divide_of_nat_eq)
  then show ?thesis by (simp add: py_int_def)
qed

lemma py_slice_nonneg:
  "py_slice xs (int a) (int b) = take (min b (length xs) - min a (length xs)) (drop (min a (length xs)) xs)"
  by (simp add: py_slice_def slice_bound_def)

lemma split_blocks:
  fixes N :: nat
  defines "k \<equiv> N div 10"
  assumes "length shuf = N"
  shows "py_slice shuf 0 (int N - (int k + int k)) = take (N - 2 * k) shuf"
    and "py_slice shuf (int N - (int k + int k)) (int N - (int k + int k) + int k) =
           take k (drop (N - 2 * k) shuf)"
    and "py_slice shuf (int N - (int k + int k) + int k) (int N - (int k + int k) + int k + int k) =
           drop (N - k) shuf"
proof -
  have k: "2 * k \<le> N" unfolding k_def by simp
  then have a: "int N - (int k + int k) = int (N - 2 * k)" by simp
  have b: "int N - (int k + int k) + int k = int (N - k)" using k by simp
  have c: "int N - (int k + int k) + int k + int k = int N" by simp
  show "py_slice shuf 0 (int N - (int k + int k)) = take (N - 2 * k) shuf"
    unfolding a using py_slice_nonneg[of shuf 0 "N - 2 * k"] assms(2) by simp
  show "py_slice shuf (int N - (int k + int k)) (int N - (int k + int k) + int k) =
           take k (drop (N - 2 * k) shuf)"
    unfolding b unfolding a using py_slice_nonneg[of shuf "N - 2 * k" "N - k"] assms(2) k
    by (simp add: min_def)
  show "py_slice shuf (int N - (int k + int k) + int k) (int N - (int k + int k) + int k + int k) =
           drop (N - k) shuf"
    unfolding c unfolding b using py_slice_nonneg[of shuf "N - k" N] assms(2) k
    by (simp add: min_def)
qed

lemma split_dataset_tenth:
  assumes "length (fst (torch_randperm ext (torch_manual_seed ext 0) (length df))) = length df"
  shows "split_dataset ext df 0.1 0.1 gen entropy =
     (let N = length df; k = N div 10;
          shuf = fst (torch_randperm ext (torch_manual_seed ext 0) N)
      in ((take (N - 2 * k) shuf, take k (drop (N - 2 * k) shuf), drop (N - k) shuf),
          torch_manual_seed ext entropy))"
  unfolding split_dataset_def Let_def case_prod_beta py_int_tenth
  by (simp only: split_blocks[OF assms])


lemma three_blocks:
  assumes "2 * k \<le> length xs"
  shows "take (length xs - 2 * k) xs @ take k (drop (length xs - 2 * k) xs) @
           drop (length xs - k) xs = xs"
proof -
  have "drop (length xs - k) xs = drop k (drop (length xs - 2 * k) xs)"
    using assms by simp
  then show ?thesis by (simp only: append_take_drop_id)
qed

text \<open>
  Claim C2. Let \<^verbatim>\<open>torch.randperm(N)\<close>, run on the generator seeded with 0, return a
  permutation of \<open>0, \<dots>, N - 1\<close>. Then \<^verbatim>\<open>split_dataset\<close> with both fractions 0.1 returns
  three lists of indices without repetition, the validation and the test list of
  \<open>\<lfloor>0.1 * N\<rfloor>\<close> indices each and the training list of the \<open>N - |val| - |test|\<close> others,
  pairwise disjoint, with union \<open>{0, \<dots>, N - 1}\<close>; and a second call for a dataset of the
  same size returns the same three lists, whatever its rows and whatever the state
  of the generator and the seed drawn afterwards. The product \<open>N * 0.1\<close> is taken over
  the reals.
\<close>

theorem split_dataset_partition:
  assumes "distinct (fst (torch_randperm ext (torch_manual_seed ext 0) (length df)))"
    and "set (fst (torch_randperm ext (torch_manual_seed ext 0) (length df))) = {0..<length df}"
    and "split_dataset ext df 0.1 0.1 gen entropy = ((train_ids, val_ids, test_ids), gen')"
  shows "int (length val_ids) = \<lfloor>0.1 * real (length df)\<rfloor> \<and>
         int (length test_ids) = \<lfloor>0.1 * real (length df)\<rfloor> \<and>
         length train_ids = length df - length val_ids - length test_ids \<and>
         length train_ids + length val_ids + length test_ids = length df \<and>
         distinct train_ids \<and> distinct val_ids \<and> distinct test_ids \<and>
         set train_ids \<inter> set val_ids = {} \<and> set train_ids \<inter> set test_ids = {} \<and>
         set val_ids \<inter> set test_ids = {} \<and>
         set train_ids \<union> set val_ids \<union> set test_ids = {0..<length df} \<and>
         (length df2 = length df \<longrightarrow>
            fst (split_dataset ext df2 0.1 0.1 gen2 entropy2) = (train_ids, val_ids, test_ids))"
proof -
  define N where "N = length df"
  define k where "k = N div 10"
  define shuf where "shuf = fst (torch_randperm ext (torch_manual_seed ext 0) N)"
  have len: "length shuf = N"
    using assms(1,2) distinct_card[of shuf] unfolding shuf_def N_def by simp
  have k2: "2 * k \<le> N" unfolding k_def by simp
  from assms(3) split_dataset_tenth[of ext df gen entropy] len
  have ids: "train_ids = take (N - 2 * k) shuf" "val_ids = take k (drop (N - 2 * k) shuf)"
    "test_ids = drop (N - k) shuf"
    unfolding shuf_def N_def k_def by (simp_all add: Let_def)
  have whole: "train_ids @ val_ids @ test_ids = shuf"
    unfolding ids using three_blocks[of k shuf] k2 len by simp
  have fl: "\<lfloor>0.1 * real (length df)\<rfloor> = int k"
  proof -
    have "0.1 * real N = real N / real 10" by simp
    then have "\<lfloor>0.1 * real N\<rfloor> = int (N div 10)" by (simp only: floor_divide_of_nat_eq)
    then show ?thesis unfolding k_def N_def .
  qed
  have lv: "length val_ids = k" and lt: "length test_ids = k" and ltr: "length train_ids = N - 2 * k"
    unfolding ids using len k2 by simp_all
  have d: "distinct (train_ids @ val_ids @ test_ids)"
    unfolding whole using assms(1) unfolding shuf_def N_def .
  have u: "set train_ids \<union> set val_ids \<union> set test_ids = {0..<length df}"
  proof -
    have "set (train_ids @ val_ids @ test_ids) = {0..<length df}"
      unfolding whole using assms(2) unfolding shuf_def N_def .
    then show ?thesis by (simp add: Un_assoc)
  qed
  have same: "fst (split_dataset ext df2 0.1 0.1 gen2 entropy2) = (train_ids, val_ids, test_ids)"
    if "length df2 = length df"
    using split_dataset_tenth[of ext df2 gen2 entropy2] len that
    unfolding ids shuf_def N_def k_def by (simp add: Let_def)
  from d have dj: "distinct train_ids" "distinct val_ids" "distinct test_ids"
    "set train_ids \<inter> set val_ids = {}" "set train_ids \<inter> set test_ids = {}"
    "set val_ids \<inter> set test_ids = {}"
    by auto
  show ?thesis
    using fl lv lt ltr k2 dj u same unfolding N_def by auto
qed

lemma demo_split:
  "split_dataset demo_ext (replicate 12 \<lparr>row_atoms = (), row_jid = ''J'', row_crys = ''c''\<rparr>)
     0.1 0.1 7 11 = (([11, 10, 9, 8, 7, 6, 5, 4, 3, 2], [1], [0]), 11)"
  by (simp add: split_dataset_def demo_ext_def Let_def py_int_def py_slice_def slice_bound_def
      upt_conv_Cons)


text \<open>
  Twelve structures and a generator whose permutation counts down: one index each for
  validation and test, ten for training, and the same split for twelve other rows.
\<close>

theorem split_dataset_partition_witness:
  "int (length [1::nat]) = \<lfloor>0.1 * real (12::nat)\<rfloor> \<and>
   set [11, 10, 9, 8, 7, 6, 5, 4, 3, 2] \<union> set [1] \<union> set [0] = {0..<12::nat} \<and>
   fst (split_dataset demo_ext
          (replicate 12 \<lparr>row_atoms = (), row_jid = ''K'', row_crys = ''hexagonal''\<rparr>)
          0.1 0.1 99 3) = ([11, 10, 9, 8, 7, 6, 5, 4, 3, 2], [1], [0])"
proof -
  let ?df = "replicate 12 \<lparr>row_atoms = (), row_jid = ''J'', row_crys = ''c''\<rparr>"
  have h1: "distinct (fst (torch_randperm demo_ext (torch_manual_seed demo_ext 0) (length ?df)))"
    by (simp add: demo_ext_def)
  have h2: "set (fst (torch_randperm demo_ext (torch_manual_seed demo_ext 0) (length ?df))) =
              {0..<length ?df}"
    by (simp add: demo_ext_def)
  from split_dataset_partition[OF h1 h2 demo_split,
      of "replicate 12 \<lparr>row_atoms = (), row_jid = ''K'', row_crys = ''hexagonal''\<rparr>" 99 3]
  show ?thesis by simp
qed

section \<open>Properties of the extracted graph\<close>

lemma query_pairs_iff:
  "(i, j) \<in> set (query_pairs points r) \<longleftrightarrow>
     i < j \<and> j < length points \<and> dist2 (points ! i) (points ! j) \<le> r\<^sup>2"
  by (auto simp: query_pairs_def)




lemma atom_mask_to_graph_Inr:
  assumes "atom_mask_to_graph lab img px_angstrom cutoff_angstrom = Inr (g, props)"
  shows "nx_nodes g = map (\<lambda>(id, row).
                             (id, \<lparr>node_pos = vscale (centroid_1 row, centroid_0 row, 0) px_angstrom,
                                   node_intensity = mean_intensity row,
                                   node_r = 0.5 * equivalent_diameter row * px_angstrom\<rparr>))
                        (enumerate 0 props)"
    and "nx_edges g = query_pairs (map (\<lambda>row. (centroid_1 row * px_angstrom,
                                                  centroid_0 row * px_angstrom)) props)
                        cutoff_angstrom"
    and "graph_px_angstrom g = px_angstrom"
  using assms
  by (auto simp: atom_mask_to_graph_def Let_def split: sum.splits)


text \<open>
  The edges of the returned graph, in squares: the pair \<open>(i, j)\<close> is an edge exactly
  when \<open>i < j\<close> and the squared distance of the two scaled centroids is at most the
  square of the cutoff.
\<close>

lemma nx_edges_iff:
  assumes "atom_mask_to_graph lab img px_angstrom cutoff_angstrom = Inr (g, props)"
  shows "(i, j) \<in> set (nx_edges g) \<longleftrightarrow>
           i < j \<and> j < length props \<and>
           (centroid_1 (props ! i) * px_angstrom - centroid_1 (props ! j) * px_angstrom)\<^sup>2 +
           (centroid_0 (props ! i) * px_angstrom - centroid_0 (props ! j) * px_angstrom)\<^sup>2
             \<le> cutoff_angstrom\<^sup>2"
  unfolding atom_mask_to_graph_Inr(2)[OF assms] query_pairs_iff
  by (auto simp: dist2_def)



text \<open>
  A 4 by 5 mask with one atom in the corner (0, 0) and one in the corner (3, 4), under
  an image of ones. A region that \<open>grow\<close> leaves as it is is a whole component.
\<close>

lemma grow_fix: "grow a reg = reg \<Longrightarrow> (grow a ^^ n) reg = reg"
  by (induction n) simp_all

lemma two_atoms_first: "component [[1, 0, 0, 0, 0], [0, 0, 0, 0, 0], [0, 0, 0, 0, 0], [0, 0, 0, 0, 1]] (0, 0) = [(0, 0)]"
  unfolding component_def
  by (rule grow_fix) (simp add: grow_def raster_def array_shape_def adjacent_def pixel_at_def upt_conv_Cons)

lemma two_atoms_second: "component [[1, 0, 0, 0, 0], [0, 0, 0, 0, 0], [0, 0, 0, 0, 0], [0, 0, 0, 0, 1]] (3, 4) = [(3, 4)]"
  unfolding component_def
  by (rule grow_fix) (simp add: grow_def raster_def array_shape_def adjacent_def pixel_at_def upt_conv_Cons)

lemma two_atoms_second': "component [[1, 0, 0, 0, 0], [0, 0, 0, 0, 0], [0, 0, 0, 0, 0], [0, 0, 0, 0, 1]]
    (Suc (Suc (Suc 0)), Suc (Suc (Suc (Suc 0)))) = [(3, 4)]"
  using two_atoms_second by (simp add: eval_nat_numeral)

lemma two_atoms_components: "components [[1, 0, 0, 0, 0], [0, 0, 0, 0, 0], [0, 0, 0, 0, 0], [0, 0, 0, 0, 1]] = [[(0, 0)], [(3, 4)]]"
  by (simp add: components_def raster_def array_shape_def pixel_at_def upt_conv_Cons two_atoms_first two_atoms_second')

lemma two_atoms_label:
  "measure_label [[1, 0, 0, 0, 0], [0, 0, 0, 0, 0], [0, 0, 0, 0, 0], [0, 0, 0, 0, 1]] =
     [[1, 0, 0, 0, 0], [0, 0, 0, 0, 0], [0, 0, 0, 0, 0], [0, 0, 0, 0, 2]]"
  by (simp add: measure_label_def two_atoms_components enumerate_eq_zip upt_conv_Cons)

lemma two_atoms_table:
  "regionprops_table
     [[Suc 0, 0, 0, 0, 0], [0, 0, 0, 0, 0], [0, 0, 0, 0, 0], [0, 0, 0, 0, 2]]
     (replicate 4 (replicate 5 (Finite 1))) =
   Inr [\<lparr>region_label = 1, centroid_0 = 0, centroid_1 = 0,
          equivalent_diameter = sqrt (4 / pi), min_intensity = Finite 1,
          mean_intensity = Finite 1, max_intensity = Finite 1\<rparr>,
        \<lparr>region_label = 2, centroid_0 = 3, centroid_1 = 4,
          equivalent_diameter = sqrt (4 / pi), min_intensity = Finite 1,
          mean_intensity = Finite 1, max_intensity = Finite 1\<rparr>]"
  by (simp add: regionprops_table_def region_row_def raster_def array_shape_def pixel_at_def
      np_min_def np_max_def np_mean_def true_divide_def upt_conv_Cons Let_def eval_nat_numeral)

lemma two_atoms_graph:
  "atom_mask_to_graph [[1, 0, 0, 0, 0], [0, 0, 0, 0, 0], [0, 0, 0, 0, 0], [0, 0, 0, 0, 1]]
     (replicate 4 (replicate 5 1)) px cutoff =
   Inr (\<lparr>graph_px_angstrom = px,
          nx_nodes = [(0, \<lparr>node_pos = (0, 0, 0), node_intensity = Finite 1,
                           node_r = 0.5 * sqrt (4 / pi) * px\<rparr>),
                      (1, \<lparr>node_pos = (4 * px, 3 * px, 0), node_intensity = Finite 1,
                           node_r = 0.5 * sqrt (4 / pi) * px\<rparr>)],
          nx_edges = (if (4 * px)\<^sup>2 + (3 * px)\<^sup>2 \<le> cutoff\<^sup>2 then [(0, 1)] else [])\<rparr>,
        [\<lparr>region_label = 1, centroid_0 = 0, centroid_1 = 0,
           equivalent_diameter = sqrt (4 / pi), min_intensity = Finite 1,
           mean_intensity = Finite 1, max_intensity = Finite 1\<rparr>,
         \<lparr>region_label = 2, centroid_0 = 3, centroid_1 = 4,
           equivalent_diameter = sqrt (4 / pi), min_intensity = Finite 1,
           mean_intensity = Finite 1, max_intensity = Finite 1\<rparr>])"
proof -
  have mx: "array_max (replicate 4 (replicate 5 1)) = Inr 1"
    by (simp add: array_max_def eval_nat_numeral)
  show ?thesis
    by (simp add: atom_mask_to_graph_def two_atoms_label mx true_divide_def two_atoms_table
        query_pairs_def dist2_def vscale_def upt_conv_Cons enumerate_eq_zip)
qed


text \<open>
  Against claim C5 as stated: the same two atoms at the pixel scale \<^verbatim>\<open>0.1\<close> and the
  cutoff 0.5. The centroids are five pixels apart, which at one tenth of a length unit
  per pixel is the cutoff, and the graph has no edge: the float lies above one tenth,
  and so does the distance the code compares.
\<close>

theorem boundary_pair_without_edge:
  "map_sum id (\<lambda>(g, props). (map (\<lambda>row. (centroid_0 row, centroid_1 row)) props, nx_edges g))
     (atom_mask_to_graph [[1, 0, 0, 0, 0], [0, 0, 0, 0, 0], [0, 0, 0, 0, 0], [0, 0, 0, 0, 1]]
        (replicate 4 (replicate 5 1)) float_0_1 0.5) =
   Inr ([(0, 0), (3, 4)], []) \<and>
   sqrt ((3 - 0)\<^sup>2 + (4 - 0)\<^sup>2) * (1 / 10) = (0.5::real)"
proof -
  have "sqrt ((3 - 0)\<^sup>2 + (4 - 0)\<^sup>2) = sqrt ((5::real)\<^sup>2)" by (simp add: power2_eq_square)
  then have five: "sqrt ((3 - 0)\<^sup>2 + (4 - 0)\<^sup>2) = (5::real)" by (simp only: real_sqrt_abs abs_numeral)
  have far: "\<not> (4 * float_0_1)\<^sup>2 + (3 * float_0_1)\<^sup>2 \<le> (0.5::real)\<^sup>2"
    by (simp add: float_0_1_def power2_eq_square)
  have "map_sum id (\<lambda>(g, props). (map (\<lambda>row. (centroid_0 row, centroid_1 row)) props, nx_edges g))
     (atom_mask_to_graph [[1, 0, 0, 0, 0], [0, 0, 0, 0, 0], [0, 0, 0, 0, 0], [0, 0, 0, 0, 1]]
        (replicate 4 (replicate 5 1)) float_0_1 0.5) =
   Inr ([(0, 0), (3, 4)], [])"
    unfolding two_atoms_graph using far by simp
  with five show ?thesis by simp
qed

text \<open>
  The same at the defaults of the dataset, pixel scale \<^verbatim>\<open>0.1\<close> and cutoff 4: two
  centroids 24 rows and 32 columns apart, 40 pixels, are not joined.
\<close>

lemma default_boundary_pair_without_edge:
  assumes "atom_mask_to_graph lab img float_0_1 4 = Inr (g, props)"
    and "centroid_0 (props ! j) = centroid_0 (props ! i) + 24"
    and "centroid_1 (props ! j) = centroid_1 (props ! i) + 32"
  shows "(i, j) \<notin> set (nx_edges g)"
proof -
  have "(centroid_1 (props ! i) * float_0_1 - centroid_1 (props ! j) * float_0_1)\<^sup>2 +
        (centroid_0 (props ! i) * float_0_1 - centroid_0 (props ! j) * float_0_1)\<^sup>2 =
        1600 * float_0_1\<^sup>2"
    unfolding assms(2,3) by (simp add: algebra_simps power2_eq_square)
  moreover have "\<not> 1600 * float_0_1\<^sup>2 \<le> 4\<^sup>2"
    by (simp add: float_0_1_def power2_eq_square)
  ultimately show ?thesis
    unfolding nx_edges_iff[OF assms(1)] by simp
qed

lemma array_shape_map: "array_shape (map (map f) a) = array_shape a"
  by (cases a) (simp_all add: array_shape_def)

lemma array_shape_measure_label: "array_shape (measure_label a) = array_shape a"
  by (cases a) (simp_all add: array_shape_def measure_label_def)

lemma measure_label_background:
  assumes "\<forall>row \<in> set a. \<forall>v \<in> set row. v = 0"
  shows "\<forall>l \<in> set (concat (measure_label a)). l = 0"
proof
  fix l assume "l \<in> set (concat (measure_label a))"
  then obtain r row c v where rc: "(r, row) \<in> set (enumerate 0 a)" "(c, v) \<in> set (enumerate 0 row)"
    and l: "l = (if v = 0 then 0
                 else Suc (length (takeWhile (\<lambda>C. (r, c) \<notin> set C) (components a))))"
    by (auto simp: measure_label_def)
  from rc have "row \<in> set a" "v \<in> set row"
    by (auto simp: in_set_enumerate_eq)
  with assms have "v = 0" by blast
  with l show "l = 0" by simp
qed

lemma regionprops_table_background:
  assumes "\<forall>l \<in> set (concat rlab). l = 0" "array_shape intensity_image = array_shape rlab"
  shows "regionprops_table rlab intensity_image = Inr []"
proof -
  have "filter (\<lambda>l. l \<noteq> 0) (concat rlab) = []"
    using assms(1) by (simp add: filter_empty_conv)
  then show ?thesis using assms(2) by (simp add: regionprops_table_def)
qed

lemma array_max_nonempty:
  assumes "concat a \<noteq> []"
  shows "\<exists>m. array_max a = Inr m"
  using assms by (cases "concat a") (simp_all add: array_max_def)

text \<open>
  Claim C4. For a mask whose pixels are all background, and an intensity image of
  the same shape with at least one pixel, \<^verbatim>\<open>atom_mask_to_graph\<close> raises no error and
  returns the graph without nodes and without edges, and the table without rows.
\<close>

theorem atom_mask_to_graph_empty_mask:
  assumes "\<forall>row \<in> set lab. \<forall>v \<in> set row. v = 0"
    and "array_shape img = array_shape lab" "concat img \<noteq> []"
  shows "atom_mask_to_graph lab img px_angstrom cutoff_angstrom =
           Inr (\<lparr>graph_px_angstrom = px_angstrom, nx_nodes = [], nx_edges = []\<rparr>, [])"
proof -
  from array_max_nonempty[OF assms(3)] obtain m where m: "array_max img = Inr m" ..
  have "regionprops_table (measure_label lab) (map (map (\<lambda>x. true_divide x m)) img) = Inr []"
    using measure_label_background[OF assms(1)] assms(2)
    by (intro regionprops_table_background) (simp_all add: array_shape_map array_shape_measure_label)
  then show ?thesis
    using m by (simp add: atom_mask_to_graph_def query_pairs_def)
qed


text \<open>A 2 by 2 background mask, and a background mask over an image that is zero everywhere.\<close>

theorem atom_mask_to_graph_empty_mask_witness:
  "atom_mask_to_graph [[0, 0], [0, 0]] [[1, 2], [3, 4]] 0.1 4 =
     Inr (\<lparr>graph_px_angstrom = 0.1, nx_nodes = [], nx_edges = []\<rparr>, []) \<and>
   atom_mask_to_graph [[0, 0, 0]] [[0, 0, 0]] 0.1 4 =
     Inr (\<lparr>graph_px_angstrom = 0.1, nx_nodes = [], nx_edges = []\<rparr>, [])"
proof -
  have a: "\<forall>row \<in> set [[0, 0], [0, 0::int]]. \<forall>v \<in> set row. v = 0" by simp
  have b: "array_shape [[1, 2], [3, 4::real]] = array_shape [[0, 0], [0, 0::int]]"
    by (simp add: array_shape_def)
  have c: "concat [[1, 2], [3, 4::real]] \<noteq> []" by simp
  have a': "\<forall>row \<in> set [[0, 0, 0::int]]. \<forall>v \<in> set row. v = 0" by simp
  have b': "array_shape [[0, 0, 0::real]] = array_shape [[0, 0, 0::int]]"
    by (simp add: array_shape_def)
  have c': "concat [[0, 0, 0::real]] \<noteq> []" by simp
  from atom_mask_to_graph_empty_mask[OF a b c, of "0.1" 4]
    atom_mask_to_graph_empty_mask[OF a' b' c', of "0.1" 4]
  show ?thesis by (rule conjI)
qed

lemma fold_max_ge: "x \<le> fold max xs (x::real)" "\<forall>y \<in> set xs. y \<le> fold max xs x"
proof -
  have "x \<le> fold max xs x \<and> (\<forall>y \<in> set xs. y \<le> fold max xs x)"
  proof (induction xs arbitrary: x)
    case Nil
    then show ?case by simp
  next
    case (Cons a xs)
    from Cons.IH[of "max a x"] show ?case by auto
  qed
  then show "x \<le> fold max xs x" "\<forall>y \<in> set xs. y \<le> fold max xs x" by simp_all
qed

lemma array_max_upper:
  assumes "array_max a = Inr m" "row \<in> set a" "x \<in> set row"
  shows "x \<le> m"
proof -
  from assms(2,3) have x: "x \<in> set (concat a)" by auto
  show ?thesis
  proof (cases "concat a")
    case Nil
    with x show ?thesis by simp
  next
    case (Cons y ys)
    with assms(1) have m: "m = fold max ys y" by (simp add: array_max_def)
    from x Cons have "x = y \<or> x \<in> set ys" by simp
    then show ?thesis using fold_max_ge(1)[of y ys] fold_max_ge(2)[of ys y] m by auto
  qed
qed

lemma zero_max_image:
  assumes "array_max img = Inr 0"
  shows "map (map (\<lambda>x. true_divide x 0)) img = map (map (\<lambda>x. if x = 0 then NaN else NegInf)) img"
proof -
  have "true_divide x 0 = (if x = 0 then NaN else NegInf)" if "row \<in> set img" "x \<in> set row" for row x
    using array_max_upper[OF assms that] by (simp add: true_divide_def)
  then show ?thesis by simp
qed

lemma has_shape_measure_label:
  assumes "has_shape shape a"
  shows "has_shape shape (measure_label a)"
  using assms
  by (auto simp: has_shape_def measure_label_def in_set_enumerate_eq)

lemma has_shape_map: "has_shape shape a \<Longrightarrow> has_shape shape (map (map f) a)"
  by (auto simp: has_shape_def)

lemma array_shape_has_shape:
  assumes "has_shape shape a" "a \<noteq> []"
  shows "array_shape a = shape"
  using assms by (cases a) (auto simp: has_shape_def array_shape_def)

lemma raster_mem: "(r, c) \<in> set (raster shape) \<longleftrightarrow> r < fst shape \<and> c < snd shape"
  by (force simp: raster_def)

lemma concat_nth_ex:
  assumes "v \<in> set (concat a)"
  shows "\<exists>r c. r < length a \<and> c < length (a ! r) \<and> a ! r ! c = v"
  using assms by (auto simp: in_set_conv_nth) blast

lemma np_mean_not_finite:
  assumes "xs \<noteq> []" "\<forall>v \<in> set xs. v = NaN \<or> v = NegInf"
  shows "np_mean xs = NaN \<or> np_mean xs = NegInf"
proof -
  have step: "fold np_add ys acc = NaN \<or> fold np_add ys acc = NegInf"
    if "\<forall>v \<in> set ys. v = NaN \<or> v = NegInf" "ys \<noteq> [] \<or> acc = NaN \<or> acc = NegInf"
    for ys acc
    using that
  proof (induction ys arbitrary: acc)
    case Nil
    then show ?case by simp
  next
    case (Cons y ys)
    from Cons.prems(1) have y: "y = NaN \<or> y = NegInf" by simp
    then have "np_add y acc = NaN \<or> np_add y acc = NegInf"
      by (cases acc) auto
    with Cons.IH[of "np_add y acc"] Cons.prems(1) show ?case by simp
  qed
  from step[of xs "Finite 0"] assms
  have "fold np_add xs (Finite 0) = NaN \<or> fold np_add xs (Finite 0) = NegInf" by simp
  then show ?thesis using assms(1) by (auto simp: np_mean_def)
qed

lemma np_mean_nan:
  assumes "xs \<noteq> []" "\<forall>v \<in> set xs. v = NaN"
  shows "np_mean xs = NaN"
proof -
  have step: "fold np_add ys acc = NaN"
    if "\<forall>v \<in> set ys. v = NaN" "ys \<noteq> [] \<or> acc = NaN" for ys acc
    using that
  proof (induction ys arbitrary: acc)
    case Nil
    then show ?case by simp
  next
    case (Cons y ys)
    from Cons.prems(1) have "np_add y acc = NaN" by (cases acc) auto
    with Cons.IH[of "np_add y acc"] Cons.prems(1) show ?case by simp
  qed
  from step[of xs "Finite 0"] assms show ?thesis by (simp add: np_mean_def)
qed

text \<open>
  The pixels of a region of the table are pixels of the image, and there is at least
  one: the intensities a row is computed from are not the empty list.
\<close>

lemma region_values:
  assumes "has_shape shape rlab" "has_shape shape inten" "l \<in> set (concat rlab)"
  shows "\<exists>ps. ps \<noteq> [] \<and> (\<forall>p \<in> set ps. fst p < fst shape \<and> snd p < snd shape) \<and>
           mean_intensity (region_row rlab inten l) =
             np_mean (map (\<lambda>p. inten ! fst p ! snd p) ps)"
proof -
  from concat_nth_ex[OF assms(3)] obtain r c where
    rc: "r < length rlab" "c < length (rlab ! r)" "rlab ! r ! c = l" by blast
  then have ne: "rlab \<noteq> []" by auto
  have sh: "array_shape rlab = shape" using assms(1) ne by (rule array_shape_has_shape)
  from rc assms(1) have "r < fst shape" "c < snd shape"
    by (auto simp: has_shape_def)
  then have "(r, c) \<in> set (filter (\<lambda>p. pixel_at rlab p = l) (raster shape))"
    using rc(3) by (simp add: raster_mem pixel_at_def)
  then have "filter (\<lambda>p. pixel_at rlab p = l) (raster shape) \<noteq> []"
    by (force simp: filter_empty_conv)
  moreover have "\<forall>p \<in> set (filter (\<lambda>p. pixel_at rlab p = l) (raster shape)).
                   fst p < fst shape \<and> snd p < snd shape"
    by (auto simp: raster_mem)
  moreover have "mean_intensity (region_row rlab inten l) =
      np_mean (map (\<lambda>p. inten ! fst p ! snd p) (filter (\<lambda>p. pixel_at rlab p = l) (raster shape)))"
    by (simp add: region_row_def sh Let_def pixel_at_def[abs_def])
  ultimately show ?thesis by blast
qed

text \<open>
  Claim C3, as the code has it. The module has no check of the maximum and NumPy
  raises nothing on a division by zero. For a mask and an intensity image of the
  same shape with at least one pixel, \<^verbatim>\<open>atom_mask_to_graph\<close> returns the table of the
  region properties of the image divided by its maximum, and the graph whose nodes
  carry the positions, the mean intensities and the radii of this table. For a
  positive maximum every pixel of the divided image is the quotient \<open>x / max\<close>. For
  the maximum zero a pixel is nan where the image is zero and minus infinity where it
  is negative, so that the mean intensity of every row, and with it of every node, is
  nan or minus infinity, and nan when the image is zero everywhere.
\<close>

theorem atom_mask_to_graph_normalises:
  assumes "has_shape shape lab" "has_shape shape img" "array_max img = Inr m"
  shows "\<exists>props.
           regionprops_table (measure_label lab) (map (map (\<lambda>x. true_divide x m)) img) = Inr props \<and>
           atom_mask_to_graph lab img px_angstrom cutoff_angstrom =
             Inr (\<lparr>graph_px_angstrom = px_angstrom,
                    nx_nodes =
                      map (\<lambda>(id, row).
                             (id, \<lparr>node_pos = (centroid_1 row * px_angstrom,
                                               centroid_0 row * px_angstrom, 0),
                                   node_intensity = mean_intensity row,
                                   node_r = 0.5 * equivalent_diameter row * px_angstrom\<rparr>))
                        (enumerate 0 props),
                    nx_edges =
                      query_pairs (map (\<lambda>row. (centroid_1 row * px_angstrom,
                                                  centroid_0 row * px_angstrom)) props)
                        cutoff_angstrom\<rparr>, props) \<and>
           (0 < m \<longrightarrow>
              map (map (\<lambda>x. true_divide x m)) img = map (map (\<lambda>x. Finite (x / m))) img) \<and>
           (m = 0 \<longrightarrow>
              map (map (\<lambda>x. true_divide x m)) img =
                map (map (\<lambda>x. if x = 0 then NaN else NegInf)) img \<and>
              (\<forall>row \<in> set props. mean_intensity row = NaN \<or> mean_intensity row = NegInf) \<and>
              ((\<forall>xs \<in> set img. \<forall>x \<in> set xs. x = 0) \<longrightarrow>
                 (\<forall>row \<in> set props. mean_intensity row = NaN)))"
proof -
  let ?norm = "map (map (\<lambda>x. true_divide x m)) img"
  let ?rlab = "measure_label lab"
  from assms(3) have ne: "img \<noteq> []" by (auto simp: array_max_def)
  then have "lab \<noteq> []" using assms(1,2) by (auto simp: has_shape_def)
  then have "array_shape img = array_shape lab"
    using assms(1,2) ne by (simp add: array_shape_has_shape)
  then have sh: "array_shape ?norm = array_shape ?rlab"
    by (simp add: array_shape_map array_shape_measure_label)
  define props where
    "props = map (region_row ?rlab ?norm) (sort (remdups (filter (\<lambda>l. l \<noteq> 0) (concat ?rlab))))"
  have p: "regionprops_table ?rlab ?norm = Inr props"
    using sh by (simp add: regionprops_table_def props_def)
  have g: "atom_mask_to_graph lab img px_angstrom cutoff_angstrom =
             Inr (\<lparr>graph_px_angstrom = px_angstrom,
                    nx_nodes =
                      map (\<lambda>(id, row).
                             (id, \<lparr>node_pos = (centroid_1 row * px_angstrom,
                                               centroid_0 row * px_angstrom, 0),
                                   node_intensity = mean_intensity row,
                                   node_r = 0.5 * equivalent_diameter row * px_angstrom\<rparr>))
                        (enumerate 0 props),
                    nx_edges =
                      query_pairs (map (\<lambda>row. (centroid_1 row * px_angstrom,
                                                  centroid_0 row * px_angstrom)) props)
                        cutoff_angstrom\<rparr>, props)"
    using assms(3) p by (simp add: atom_mask_to_graph_def Let_def vscale_def)
  have pos: "0 < m \<longrightarrow> ?norm = map (map (\<lambda>x. Finite (x / m))) img"
    by (simp add: true_divide_def)
  have zero: "?norm = map (map (\<lambda>x. if x = 0 then NaN else NegInf)) img \<and>
              (\<forall>row \<in> set props. mean_intensity row = NaN \<or> mean_intensity row = NegInf) \<and>
              ((\<forall>xs \<in> set img. \<forall>x \<in> set xs. x = 0) \<longrightarrow>
                 (\<forall>row \<in> set props. mean_intensity row = NaN))"
    if m0: "m = 0"
  proof -
    have n: "?norm = map (map (\<lambda>x. if x = 0 then NaN else NegInf)) img"
      using zero_max_image assms(3) m0 by blast
    have shl: "has_shape shape ?rlab" using assms(1) by (rule has_shape_measure_label)
    have shn: "has_shape shape ?norm" using assms(2) by (rule has_shape_map)
    have px: "?norm ! r ! c = (if img ! r ! c = 0 then NaN else NegInf)"
      if "r < fst shape" "c < snd shape" for r c
    proof -
      from that assms(2) have "img ! r \<in> set img" "img ! r ! c \<in> set (img ! r)"
        by (auto simp: has_shape_def)
      with array_max_upper[OF assms(3)] m0 have "img ! r ! c \<le> 0" by blast
      then show ?thesis
        using that assms(2) m0 by (simp add: has_shape_def true_divide_def)
    qed
    have rows: "\<exists>ps. ps \<noteq> [] \<and> (\<forall>p \<in> set ps. fst p < fst shape \<and> snd p < snd shape) \<and>
           mean_intensity row = np_mean (map (\<lambda>p. ?norm ! fst p ! snd p) ps)"
      if "row \<in> set props" for row
    proof -
      from that obtain l where "l \<in> set (concat ?rlab)" "row = region_row ?rlab ?norm l"
        by (auto simp: props_def)
      with region_values[OF shl shn, of l] show ?thesis by simp
    qed
    have a: "mean_intensity row = NaN \<or> mean_intensity row = NegInf" if "row \<in> set props" for row
    proof -
      from rows[OF that] obtain ps where ps: "ps \<noteq> []"
        "\<forall>p \<in> set ps. fst p < fst shape \<and> snd p < snd shape"
        "mean_intensity row = np_mean (map (\<lambda>p. ?norm ! fst p ! snd p) ps)" by blast
      have "\<forall>v \<in> set (map (\<lambda>p. ?norm ! fst p ! snd p) ps). v = NaN \<or> v = NegInf"
        using ps(2) px by auto
      with np_mean_not_finite[of "map (\<lambda>p. ?norm ! fst p ! snd p) ps"] ps(1,3)
      show ?thesis by simp
    qed
    have b: "mean_intensity row = NaN"
      if "row \<in> set props" and z: "\<forall>xs \<in> set img. \<forall>x \<in> set xs. x = 0" for row
    proof -
      from rows[OF that(1)] obtain ps where ps: "ps \<noteq> []"
        "\<forall>p \<in> set ps. fst p < fst shape \<and> snd p < snd shape"
        "mean_intensity row = np_mean (map (\<lambda>p. ?norm ! fst p ! snd p) ps)" by blast
      have "img ! r ! c = 0" if "r < fst shape" "c < snd shape" for r c
      proof -
        from that assms(2) have "img ! r \<in> set img" "img ! r ! c \<in> set (img ! r)"
          by (auto simp: has_shape_def)
        with z show ?thesis by blast
      qed
      then have "\<forall>v \<in> set (map (\<lambda>p. ?norm ! fst p ! snd p) ps). v = NaN"
        using ps(2) px by auto
      with np_mean_nan[of "map (\<lambda>p. ?norm ! fst p ! snd p) ps"] ps(1,3)
      show ?thesis by simp
    qed
    from n a b show ?thesis by blast
  qed
  from p g pos zero show ?thesis by blast
qed

text \<open>
  The mask with two atoms over an image with maximum zero and a negative pixel between
  the atoms: the call returns the graph of two nodes, both with the intensity nan.
\<close>

theorem atom_mask_to_graph_normalises_witness:
  "\<exists>props.
     regionprops_table (measure_label [[1, 0, 1]]) [[NaN, NegInf, NaN]] = Inr props \<and>
     map mean_intensity props = [NaN, NaN] \<and>
     atom_mask_to_graph [[1, 0, 1]] [[0, - 1, 0]] 0.1 4 =
       Inr (\<lparr>graph_px_angstrom = 0.1,
              nx_nodes =
                map (\<lambda>(id, row).
                       (id, \<lparr>node_pos = (centroid_1 row * 0.1, centroid_0 row * 0.1, 0),
                             node_intensity = mean_intensity row,
                             node_r = 0.5 * equivalent_diameter row * 0.1\<rparr>))
                  (enumerate 0 props),
              nx_edges =
                query_pairs (map (\<lambda>row. (centroid_1 row * 0.1, centroid_0 row * 0.1)) props) 4\<rparr>,
            props)"
proof -
  have sh: "has_shape (1, 3) [[1, 0, 1::int]]" "has_shape (1, 3) [[0, - 1, 0::real]]"
    by (simp_all add: has_shape_def)
  have m0: "array_max [[0, - 1, 0]] = Inr 0"
    by (simp add: array_max_def)
  from atom_mask_to_graph_normalises[OF sh m0, of "0.1" 4]
  obtain props where
    g: "regionprops_table (measure_label [[1, 0, 1]]) [[NaN, NegInf, NaN]] = Inr props"
      "atom_mask_to_graph [[1, 0, 1]] [[0, - 1, 0]] 0.1 4 =
       Inr (\<lparr>graph_px_angstrom = 0.1,
              nx_nodes =
                map (\<lambda>(id, row).
                       (id, \<lparr>node_pos = (centroid_1 row * 0.1, centroid_0 row * 0.1, 0),
                             node_intensity = mean_intensity row,
                             node_r = 0.5 * equivalent_diameter row * 0.1\<rparr>))
                  (enumerate 0 props),
              nx_edges =
                query_pairs (map (\<lambda>row. (centroid_1 row * 0.1, centroid_0 row * 0.1)) props) 4\<rparr>,
            props)"
    by (auto simp: true_divide_def)
  from g(1) have mi: "map mean_intensity props = [NaN, NaN]"
    by (auto simp: regionprops_table_def demo_measure_label region_row_def raster_def
          array_shape_def pixel_at_def np_mean_def upt_conv_Cons Let_def)
  show ?thesis
    by (rule exI[of _ props], intro conjI) (rule g(1) mi g(2))+
qed

text \<open>
  Against claim C3 as stated: the mask with two atoms over the image that is zero
  everywhere. The maximum is zero and the call returns a graph, with nan for every
  intensity; it does not fail.
\<close>

theorem zero_intensity_image_returns_graph:
  "array_max [[0, 0, 0]] = Inr 0 \<and>
   atom_mask_to_graph [[1, 0, 1]] [[0, 0, 0]] 0.1 4 =
     Inr (\<lparr>graph_px_angstrom = 0.1,
            nx_nodes =
              [(0, \<lparr>node_pos = (0, 0, 0), node_intensity = NaN,
                     node_r = 0.5 * sqrt (4 / pi) * 0.1\<rparr>),
               (1, \<lparr>node_pos = (0.2, 0, 0), node_intensity = NaN,
                     node_r = 0.5 * sqrt (4 / pi) * 0.1\<rparr>)],
            nx_edges = [(0, 1)]\<rparr>,
          [\<lparr>region_label = 1, centroid_0 = 0, centroid_1 = 0,
             equivalent_diameter = sqrt (4 / pi), min_intensity = NaN,
             mean_intensity = NaN, max_intensity = NaN\<rparr>,
           \<lparr>region_label = 2, centroid_0 = 0, centroid_1 = 2,
             equivalent_diameter = sqrt (4 / pi), min_intensity = NaN,
             mean_intensity = NaN, max_intensity = NaN\<rparr>])"
  by (simp add: atom_mask_to_graph_def demo_measure_label array_max_def regionprops_table_def
      region_row_def raster_def array_shape_def pixel_at_def query_pairs_def dist2_def
      np_min_def np_max_def np_mean_def true_divide_def vscale_def upt_conv_Cons
      enumerate_eq_zip power2_eq_square)

section \<open>Bond vectors\<close>

lemma bond_batch:
  "bond_vectors \<lparr>src_pos = map (\<lambda>(u, v). P ! u) es, dst_pos = map (\<lambda>(u, v). P ! v) es\<rparr> =
     map (\<lambda>(u, v). vsub (P ! v) (P ! u)) es"
  by (simp add: bond_vectors_def Let_def zip_map_map case_prod_beta zip_same_conv_map)

text \<open>
  Claim C8. For an edge whose source lies at \<open>(ux, uy, uz)\<close> and whose destination lies
  at \<open>(vx, vy, vz)\<close>, \<^verbatim>\<open>bond_vectors\<close> returns \<open>(vx - ux, vy - uy, vz - uz)\<close>, the
  destination minus the source; and \<^verbatim>\<open>apply_edges\<close> with \<^verbatim>\<open>bond_vectors\<close> stores this
  vector for the edge from node \<open>u\<close> to node \<open>v\<close> of a graph.
\<close>

theorem bond_vectors_direction:
  "(length (src_pos e) = length (dst_pos e) \<and> k < length (src_pos e) \<and>
    src_pos e ! k = (ux, uy, uz) \<and> dst_pos e ! k = (vx, vy, vz) \<longrightarrow>
      bond_vectors e ! k = (vx - ux, vy - uy, vz - uz)) \<and>
   (j < length (dgl_edges g) \<and> dgl_edges g ! j = (u, v) \<and>
    ndata_pos g ! u = (ux, uy, uz) \<and> ndata_pos g ! v = (vx, vy, vz) \<longrightarrow>
      edata_r (apply_edges bond_vectors g) ! j = (vx - ux, vy - uy, vz - uz))"
proof (intro conjI impI)
  assume "length (src_pos e) = length (dst_pos e) \<and> k < length (src_pos e) \<and>
    src_pos e ! k = (ux, uy, uz) \<and> dst_pos e ! k = (vx, vy, vz)"
  then show "bond_vectors e ! k = (vx - ux, vy - uy, vz - uz)"
    by (simp add: bond_vectors_def Let_def vsub_def)
next
  assume h: "j < length (dgl_edges g) \<and> dgl_edges g ! j = (u, v) \<and>
    ndata_pos g ! u = (ux, uy, uz) \<and> ndata_pos g ! v = (vx, vy, vz)"
  have "edata_r (apply_edges bond_vectors g) =
          map (\<lambda>(u, v). vsub (ndata_pos g ! v) (ndata_pos g ! u)) (dgl_edges g)"
    by (simp add: apply_edges_def bond_batch)
  with h show "edata_r (apply_edges bond_vectors g) ! j = (vx - ux, vy - uy, vz - uz)"
    by (simp add: vsub_def)
qed

text \<open>
  Two nodes at (1, 2, 0) and (4, 6, 0) with an edge each way: the edge from the first
  to the second gets (3, 4, 0), the edge back gets (-3, -4, 0).
\<close>

theorem bond_vectors_direction_witness:
  "bond_vectors \<lparr>src_pos = [(1, 2, 0), (4, 6, 0)], dst_pos = [(4, 6, 0), (1, 2, 0)]\<rparr> ! 0 =
     (3, 4, 0) \<and>
   edata_r (apply_edges bond_vectors
     \<lparr>ndata_pos = [(1, 2, 0), (4, 6, 0)], ndata_intensity = [Finite 1, Finite 1],
      ndata_r = [1, 1], dgl_edges = [(0, 1), (1, 0)], edata_r = [],
      ndata_atom_features = []\<rparr>) ! 1 = (- 3, - 4, 0)"
  using bond_vectors_direction
    [of "\<lparr>src_pos = [(1, 2, 0), (4, 6, 0)], dst_pos = [(4, 6, 0), (1, 2, 0)]\<rparr>" 0
        1 2 0 4 6 0 1
        "\<lparr>ndata_pos = [(1, 2, 0), (4, 6, 0)], ndata_intensity = [Finite 1, Finite 1],
          ndata_r = [1, 1], dgl_edges = [(0, 1), (1, 0)], edata_r = [],
          ndata_atom_features = []\<rparr>" 1 0]
    bond_vectors_direction
    [of "\<lparr>src_pos = [(1, 2, 0), (4, 6, 0)], dst_pos = [(4, 6, 0), (1, 2, 0)]\<rparr>" 0
        4 6 0 1 2 0 1
        "\<lparr>ndata_pos = [(1, 2, 0), (4, 6, 0)], ndata_intensity = [Finite 1, Finite 1],
          ndata_r = [1, 1], dgl_edges = [(0, 1), (1, 0)], edata_r = [],
          ndata_atom_features = []\<rparr>" 1 0]
  by simp

subsection \<open>The bond vectors of a sample\<close>

text \<open>
  What \<^verbatim>\<open>__getitem__\<close> of the graph dataset stores for an edge: the difference of
  the node positions times the pixel scale of the dataset. The node positions are
  in length units already, \<^verbatim>\<open>atom_mask_to_graph\<close> has multiplied the centroids by
  \<^verbatim>\<open>px_angstrom\<close>.
\<close>

lemma graph_getitem_edge_r:
  assumes "Jarvis2dSTEMGraphDataset_getitem ext self idx rs = Inr (gs, rs')"
  shows "edata_r (sample_g gs) =
           map (\<lambda>(u, v). vscale (vsub (ndata_pos (sample_g gs) ! v) (ndata_pos (sample_g gs) ! u))
                             (self_px_scale self))
             (dgl_edges (sample_g gs))"
  using assms
  by (auto simp: Jarvis2dSTEMGraphDataset_getitem_def Let_def sample.defs graph_sample.defs
        apply_edges_def bond_batch case_prod_beta
        split: sum.splits prod.splits if_splits option.splits)

lemma from_networkx_pos:
  assumes "atom_mask_to_graph lab img px_angstrom cutoff_angstrom = Inr (g, props)"
    and "from_networkx g = Inr d"
  shows "ndata_pos d =
           map (\<lambda>row. vscale (centroid_1 row, centroid_0 row, 0) px_angstrom) props"
proof -
  from assms(2) have "ndata_pos d = map (\<lambda>(id, a). node_pos a) (nx_nodes g)"
    by (auto simp: from_networkx_def split: if_splits)
  then show ?thesis
    unfolding atom_mask_to_graph_Inr(1)[OF assms(1)]
    by (intro nth_equalityI) (simp_all add: nth_enumerate_eq)
qed

lemma from_networkx_edges:
  assumes "from_networkx g = Inr d" "e \<in> set (dgl_edges d)"
  shows "fst e \<in> fst ` set (nx_nodes g) \<and> snd e \<in> fst ` set (nx_nodes g)"
  using assms by (force simp: from_networkx_def split: if_splits)

lemma graph_getitem_Inr:
  assumes "Jarvis2dSTEMGraphDataset_getitem ext self idx rs = Inr (gs, rs')"
  shows "\<exists>lab g props d.
           atom_mask_to_graph lab (sample_image gs) 0.1 4 = Inr (g, props) \<and>
           from_networkx g = Inr d \<and>
           ndata_pos (sample_g gs) = ndata_pos d \<and>
           dgl_edges (sample_g gs) = dgl_edges d"
  using assms
  by (auto simp: Jarvis2dSTEMGraphDataset_getitem_def Let_def sample.defs graph_sample.defs
        apply_edges_def
        split: sum.splits prod.splits if_splits option.splits) blast+

text \<open>
  The bond vector stored for an edge of a sample, in terms of the centroids in pixels:
  the difference of the centroids, times 0.1 (the default \<^verbatim>\<open>px_angstrom\<close> of
  \<^verbatim>\<open>atom_mask_to_graph\<close>, whatever the pixel scale of the dataset), times the pixel
  scale of the dataset.
\<close>

lemma graph_getitem_bond_pixels:
  assumes "Jarvis2dSTEMGraphDataset_getitem ext self idx rs = Inr (gs, rs')"
  shows "\<exists>lab g props.
           atom_mask_to_graph lab (sample_image gs) 0.1 4 = Inr (g, props) \<and>
           edata_r (sample_g gs) =
             map (\<lambda>(u, v). vscale (vscale (vsub (centroid_1 (props ! v), centroid_0 (props ! v), 0)
                                                   (centroid_1 (props ! u), centroid_0 (props ! u), 0))
                                             0.1)
                               (self_px_scale self))
               (dgl_edges (sample_g gs)) \<and>
           (\<forall>e \<in> set (dgl_edges (sample_g gs)). fst e < length props \<and> snd e < length props)"
proof -
  from graph_getitem_Inr[OF assms] obtain lab g props d where
    g: "atom_mask_to_graph lab (sample_image gs) 0.1 4 = Inr (g, props)"
      "from_networkx g = Inr d"
      "ndata_pos (sample_g gs) = ndata_pos d"
      "dgl_edges (sample_g gs) = dgl_edges d"
    by blast
  note pos = from_networkx_pos[OF g(1,2)]
  have ids: "map fst (nx_nodes g) = [0..<length props]"
    unfolding atom_mask_to_graph_Inr(1)[OF g(1)]
    by (rule nth_equalityI) (simp_all add: nth_enumerate_eq)
  have rng: "fst e < length props \<and> snd e < length props"
    if "e \<in> set (dgl_edges (sample_g gs))" for e
  proof -
    have "fst ` set (nx_nodes g) = {0..<length props}"
      using ids by (metis set_map set_upt)
    with from_networkx_edges[OF g(2), of e] that g(4) show ?thesis by simp
  qed
  have "vscale (vsub (ndata_pos (sample_g gs) ! v) (ndata_pos (sample_g gs) ! u)) (self_px_scale self) =
        vscale (vscale (vsub (centroid_1 (props ! v), centroid_0 (props ! v), 0)
                             (centroid_1 (props ! u), centroid_0 (props ! u), 0)) 0.1)
          (self_px_scale self)"
    if "(u, v) \<in> set (dgl_edges (sample_g gs))" for u v
    using rng[OF that] unfolding g(3) pos
    by (simp add: vscale_def vsub_def algebra_simps)
  then have "edata_r (sample_g gs) =
             map (\<lambda>(u, v). vscale (vscale (vsub (centroid_1 (props ! v), centroid_0 (props ! v), 0)
                                                   (centroid_1 (props ! u), centroid_0 (props ! u), 0))
                                             0.1)
                               (self_px_scale self))
               (dgl_edges (sample_g gs))"
    unfolding graph_getitem_edge_r[OF assms] by (intro map_cong refl) auto
  with g(1) rng show ?thesis by blast
qed

text \<open>
  Claim C1 says that the vector stored for an edge from \<open>u\<close> to \<open>v\<close> is \<open>pos v - pos u\<close>
  in length units, the pixel scale applied once. The code applies it twice: in the
  sample of the instance the two nodes lie at (0, 0, 0) and (0.2, 0, 0), and the
  vector stored for the edge from node 0 to node 1 is (0.02, 0, 0), not (0.2, 0, 0).
\<close>

theorem graph_sample_bond_scaled_twice:
  "map_sum id (\<lambda>(gs, rs). (ndata_pos (sample_g gs), dgl_edges (sample_g gs), edata_r (sample_g gs)))
     (Jarvis2dSTEMGraphDataset_getitem demo_ext demo_dataset 0 (\<lambda>k. 0)) =
   Inr ([(0, 0, 0), (0.2, 0, 0)], [(0, 1), (1, 0)], [(0.02, 0, 0), (- 0.02, 0, 0)])"
  by (simp add: demo_graph_getitem)

end
